theory Spec2Isabelle
  imports Main "HOL-Library.AList"
begin

section \<open>Data model of the call client (frontend/src/components/VideoCall.js)\<close>

text \<open>
  The component keeps its per-call state in React state cells and refs. The model puts
  them in one record that every handler takes and returns. Calls into the browser
  (WebSocket, RTCPeerConnection, media tracks, timers) are recorded, in order, in the
  \<open>effects\<close> log. Results the browser hands back (media streams, SDP blobs, failures
  of the WebRTC engine) are parameters of the handlers.

  Identities are strings. A field of a message that is absent reads \<open>undefined\<close> in
  the source and is \<open>None\<close> here; the keys of the peer map are such optional strings,
  since the \<open>offer\<close> handler uses \<open>sender_id\<close> as a key without testing it.
\<close>

type_synonym key = "string option"

datatype track_kind = Audio | Video

record track =
  tid :: nat
  kind :: track_kind

type_synonym stream = "track list"

datatype ready_state = CONNECTING | OPEN | CLOSING | CLOSED

record websocket =
  readyState :: ready_state
  userId :: "string option"

datatype mtype =
    Join | Offer | Answer | IceCandidate | Leave | MuteStatus | Emoji | Connected
  | UserJoined | UserLeft | ExistingParticipants | Error | Unknown string

record candidate =
  cand :: string
  sdpMLineIndex :: nat
  sdpMid :: string

datatype payload =
    NoData
  | SdpData string string
  | IceData candidate
  | ParticipantsData "string list"
  | IdData string
  | UserIdData string
  | MuteData bool
  | EmojiData string
  | ErrData string

record message =
  mtype :: mtype
  room_id :: "string option"
  sender_id :: "string option"
  user_id :: "string option"
  data :: payload

record pc =
  senders :: "track option list"
  localDescription :: "(string \<times> string) option"
  remoteDescription :: "(string \<times> string) option"
  iceCandidates :: "candidate list"

datatype effect =
    Send message
  | PcNew key
  | PcClose key
  | TrackStop track
  | WsNew string
  | WsClose
  | SetTimeout nat nat
  | ClearTimeout nat
  | Alert
  | OnLeave

datatype ui_error =
    RoomIdMissing
  | RoomDoesNotExist string
  | FailedToConnect
  | MediaAccess string
  | InitializationFailed string

record client =
  roomId :: string
  username :: string
  localStream :: "stream option"
  peers :: "(key \<times> pc) list"
  wsRef :: "websocket option"
  reconnectTimeoutRef :: "nat option"
  reconnectAttempts :: nat
  isConnected :: bool
  isLoading :: bool
  error :: "ui_error option"
  isScreenSharing :: bool
  showScreenShareWarning :: bool
  remoteStreams :: "(key \<times> stream) list"
  remoteMuteStatus :: "(key \<times> bool) list"
  remoteUsernames :: "(key \<times> string) list"
  timers :: "(nat \<times> nat) list"
  nextTimer :: nat
  effects :: "effect list"

text \<open>
  \<open>peers\<close> is \<open>peersRef.current\<close>, a JavaScript \<open>Map\<close>: an association list in
  insertion order, read with \<open>map_of\<close>, written with \<open>AList.update\<close> (which keeps the
  position of a key that is already there and appends a new one) and \<open>AList.delete\<close>.
  \<open>timers\<close> is the browser's table of pending reconnection timers (identifier and
  delay in milliseconds); \<open>nextTimer\<close> is the identifier the next \<open>setTimeout\<close> returns.
\<close>

definition truthy :: "string option \<Rightarrow> bool" where
  "truthy v = (case v of None \<Rightarrow> False | Some s \<Rightarrow> s \<noteq> [])"

definition js_or :: "string option \<Rightarrow> string option \<Rightarrow> string option" where
  "js_or a b = (if truthy a then a else b)"

definition myUserId :: "client \<Rightarrow> string option" where
  "myUserId s = (case wsRef s of None \<Rightarrow> None | Some w \<Rightarrow> userId w)"

definition wsOpen :: "client \<Rightarrow> bool" where
  "wsOpen s = (case wsRef s of None \<Rightarrow> False | Some w \<Rightarrow> readyState w = OPEN)"

definition log_effect :: "effect \<Rightarrow> client \<Rightarrow> client" where
  "log_effect e s = s\<lparr>effects := effects s @ [e]\<rparr>"

section \<open>Reconnection controller\<close>

definition maxReconnectAttempts :: nat where
  "maxReconnectAttempts = 5"

text \<open>\<open>Math.min(1000 * Math.pow(2, n), 30000)\<close>, in milliseconds.\<close>

definition reconnect_delay :: "nat \<Rightarrow> nat" where
  "reconnect_delay n = min (1000 * 2 ^ n) 30000"

definition setTimeout_reconnect :: "nat \<Rightarrow> client \<Rightarrow> client" where
  "setTimeout_reconnect delay s =
     s\<lparr>reconnectTimeoutRef := Some (nextTimer s),
       timers := timers s @ [(nextTimer s, delay)],
       nextTimer := Suc (nextTimer s),
       effects := effects s @ [SetTimeout (nextTimer s) delay]\<rparr>"

definition clearTimeout :: "nat \<Rightarrow> client \<Rightarrow> client" where
  "clearTimeout t s =
     s\<lparr>timers := filter (\<lambda>p. fst p \<noteq> t) (timers s),
       effects := effects s @ [ClearTimeout t]\<rparr>"

text \<open>A JavaScript error value: its \<open>name\<close> and its \<open>message\<close>.\<close>

record js_error =
  ename :: string
  emessage :: string

definition ws_url :: "string \<Rightarrow> string" where
  "ws_url r = ''ws://localhost:8000/ws/'' @ r"

text \<open>
  \<open>new WebSocket(url)\<close> throws a \<open>SyntaxError\<close> when the URL carries a fragment. The
  URL is \<open>ws://localhost:8000/ws/\<close> followed by the room identifier, so that happens
  exactly when the room identifier contains \<open>#\<close>; everything else after the fixed
  scheme, host and path prefix parses.
\<close>

definition constructor_rejects :: "string \<Rightarrow> bool" where
  "constructor_rejects url = (CHR ''#'' \<in> set url)"

definition url_syntax_error :: js_error where
  "url_syntax_error =
     \<lparr>ename = ''SyntaxError'', emessage = ''The URL contains a fragment identifier''\<rparr>"

text \<open>
  \<open>connectWebSocket\<close> returns the new state, or throws: \<open>Inl\<close> carries the error and
  the state reached when the constructor threw (an open socket has been closed and the
  reference dropped by then).
\<close>

definition connectWebSocket :: "client \<Rightarrow> (js_error \<times> client) + client" where
  "connectWebSocket s =
     (let s1 = (if wsOpen s then (log_effect WsClose s)\<lparr>wsRef := None\<rparr> else s) in
      if roomId s1 = [] then Inr (s1\<lparr>error := Some RoomIdMissing\<rparr>)
      else if constructor_rejects (ws_url (roomId s1)) then Inl (url_syntax_error, s1)
      else Inr ((log_effect (WsNew (ws_url (roomId s1))) s1)
                  \<lparr>wsRef := Some \<lparr>readyState = CONNECTING, userId = None\<rparr>\<rparr>))"

text \<open>
  The state a call leaves behind when nothing catches what it throws (the callback of a
  timer).
\<close>

definition state_after :: "(js_error \<times> client) + client \<Rightarrow> client" where
  "state_after r = (case r of Inl (e, s) \<Rightarrow> s | Inr s \<Rightarrow> s)"

text \<open>
  The browser sets the ready state of a socket before it fires the socket's event.
  \<open>socket_becomes\<close> is that step for the socket \<open>wsRef\<close> refers to; a socket the
  component no longer refers to (after \<open>wsRef.current = null\<close>) keeps its handlers and
  still fires them, with nothing to update in the component's state.
\<close>

definition socket_becomes :: "ready_state \<Rightarrow> client \<Rightarrow> client" where
  "socket_becomes st s = s\<lparr>wsRef := map_option (\<lambda>w. w\<lparr>readyState := st\<rparr>) (wsRef s)\<rparr>"

definition join_message :: "client \<Rightarrow> message" where
  "join_message s =
     \<lparr>mtype = Join, room_id = Some (roomId s), sender_id = None,
      user_id = Some (username s), data = NoData\<rparr>"

text \<open>
  \<open>ws.onopen\<close>. The handler also starts a 500 ms timer that only clears the loading flag
  of the user interface; that timer is not part of the model.
\<close>

definition ws_onopen :: "client \<Rightarrow> client" where
  "ws_onopen s =
     log_effect (Send (join_message s)) (s\<lparr>isConnected := True, reconnectAttempts := 0\<rparr>)"

definition ws_onerror :: "client \<Rightarrow> client" where
  "ws_onerror s = s\<lparr>isConnected := False\<rparr>"

text \<open>\<open>ws.onclose\<close>, with \<open>event.code\<close> as its argument.\<close>

definition ws_onclose :: "nat \<Rightarrow> client \<Rightarrow> client" where
  "ws_onclose code s =
     (let s1 = s\<lparr>isConnected := False\<rparr> in
      if code = 1008 then s1\<lparr>error := Some (RoomDoesNotExist (roomId s1))\<rparr>
      else if code = 1000 then s1
      else if reconnectAttempts s1 < maxReconnectAttempts then
        (let s2 = s1\<lparr>reconnectAttempts := reconnectAttempts s1 + 1\<rparr> in
         setTimeout_reconnect (reconnect_delay (reconnectAttempts s2)) s2)
      else s1\<lparr>error := Some FailedToConnect\<rparr>)"

text \<open>
  The timer callback \<open>() => connectWebSocket()\<close>: when the timer \<open>t\<close> is still pending
  the browser removes it from its table and runs the callback.
\<close>

definition timer_fires :: "nat \<Rightarrow> client \<Rightarrow> client" where
  "timer_fires t s =
     (if t \<in> fst ` set (timers s)
      then state_after
             (connectWebSocket (s\<lparr>timers := filter (\<lambda>p. fst p \<noteq> t) (timers s)\<rparr>))
      else s)"

text \<open>
  One failed reconnection: the pending retry timer (if any) fires and opens a new socket,
  the socket fails (\<open>onerror\<close>) and closes with \<open>code\<close>.
\<close>

definition retry_socket_fails :: "client \<Rightarrow> client" where
  "retry_socket_fails s =
     socket_becomes CLOSED (ws_onerror
       (case reconnectTimeoutRef s of None \<Rightarrow> s | Some t \<Rightarrow> timer_fires t s))"

definition failed_attempt :: "nat \<Rightarrow> client \<Rightarrow> client" where
  "failed_attempt code s = ws_onclose code (retry_socket_fails s)"

fun failed_attempts :: "nat list \<Rightarrow> client \<Rightarrow> client" where
  "failed_attempts [] s = s"
| "failed_attempts (c # cs) s = failed_attempts cs (failed_attempt c s)"

definition scheduled_delays :: "client \<Rightarrow> nat list" where
  "scheduled_delays s = concat (map (\<lambda>e. case e of SetTimeout t d \<Rightarrow> [d] | _ \<Rightarrow> []) (effects s))"

definition abnormal :: "nat \<Rightarrow> bool" where
  "abnormal code = (code \<noteq> 1008 \<and> code \<noteq> 1000)"

section \<open>Peer negotiation (handleSignalingMessage)\<close>

text \<open>
  What the WebRTC engine answers for the peer connection of a given key: the SDP that
  \<open>createOffer\<close> and \<open>createAnswer\<close> resolve to (\<open>None\<close> when the promise rejects), and
  whether \<open>setLocalDescription\<close>, \<open>setRemoteDescription\<close> and \<open>addIceCandidate\<close>
  resolve. A handler is run to completion on these answers: the interleaving of two
  handlers at their \<open>await\<close> points is not modelled.
\<close>

record engine =
  createOffer :: "key \<Rightarrow> string option"
  createAnswer :: "key \<Rightarrow> string option"
  setLocalDescription :: "key \<Rightarrow> bool"
  setRemoteDescription :: "key \<Rightarrow> bool"
  addIceCandidate :: "key \<Rightarrow> bool"

definition has_peer :: "client \<Rightarrow> key \<Rightarrow> bool" where
  "has_peer s k = (map_of (peers s) k \<noteq> None)"

definition new_pc :: "client \<Rightarrow> pc" where
  "new_pc s =
     \<lparr>senders = (case localStream s of None \<Rightarrow> [] | Some ls \<Rightarrow> map Some ls),
      localDescription = None, remoteDescription = None, iceCandidates = []\<rparr>"

text \<open>
  \<open>createPeerConnection\<close>: a new connection carrying the tracks of the local stream,
  entered in the peer map under the key. The callbacks it installs (\<open>ontrack\<close>,
  \<open>onicecandidate\<close>, \<open>onconnectionstatechange\<close>) run on events of the engine and
  are not part of the handlers modelled here.
\<close>

definition createPeerConnection :: "key \<Rightarrow> client \<Rightarrow> client" where
  "createPeerConnection k s =
     (log_effect (PcNew k) s)\<lparr>peers := AList.update k (new_pc s) (peers s)\<rparr>"

definition sendSignalingMessage :: "message \<Rightarrow> client \<Rightarrow> client" where
  "sendSignalingMessage m s = (if wsOpen s then log_effect (Send m) s else s)"

definition sdp_message :: "mtype \<Rightarrow> string \<Rightarrow> client \<Rightarrow> string \<Rightarrow> message" where
  "sdp_message t ty s sdp =
     \<lparr>mtype = t, room_id = Some (roomId s), sender_id = None, user_id = None,
      data = SdpData sdp ty\<rparr>"

definition offer_message :: "client \<Rightarrow> string \<Rightarrow> message" where
  "offer_message = sdp_message Offer ''offer''"

definition answer_message :: "client \<Rightarrow> string \<Rightarrow> message" where
  "answer_message = sdp_message Answer ''answer''"

definition update_pc :: "key \<Rightarrow> (pc \<Rightarrow> pc) \<Rightarrow> client \<Rightarrow> client" where
  "update_pc k f s = s\<lparr>peers := AList.map_entry k f (peers s)\<rparr>"

text \<open>
  The \<open>try\<close> block shared by \<open>user-joined\<close> and \<open>existing-participants\<close>:
  \<open>createOffer\<close>, \<open>setLocalDescription\<close>, then the \<open>offer\<close> message. A rejection is
  caught and logged to the console only.
\<close>

definition negotiate_offer :: "engine \<Rightarrow> key \<Rightarrow> client \<Rightarrow> client" where
  "negotiate_offer eng k s =
     (case createOffer eng k of
        None \<Rightarrow> s
      | Some sdp \<Rightarrow>
          if setLocalDescription eng k
          then sendSignalingMessage (offer_message s sdp)
                 (update_pc k (\<lambda>p. p\<lparr>localDescription := Some (''offer'', sdp)\<rparr>) s)
          else s)"

definition joinedUserId :: "message \<Rightarrow> string option" where
  "joinedUserId m = js_or (js_or (user_id m) (sender_id m)) (user_id m)"

definition handle_user_joined :: "engine \<Rightarrow> message \<Rightarrow> client \<Rightarrow> client" where
  "handle_user_joined eng m s =
     (if \<not> truthy (joinedUserId m) then s
      else if joinedUserId m = myUserId s then s
      else if has_peer s (joinedUserId m) then s
      else negotiate_offer eng (joinedUserId m) (createPeerConnection (joinedUserId m) s))"

definition handle_offer :: "engine \<Rightarrow> message \<Rightarrow> client \<Rightarrow> client" where
  "handle_offer eng m s =
     (let k = sender_id m;
          s1 = (if has_peer s k then s else createPeerConnection k s)
      in case data m of
           SdpData sdp ty \<Rightarrow>
             if setRemoteDescription eng k then
               (let s2 = update_pc k (\<lambda>p. p\<lparr>remoteDescription := Some (ty, sdp)\<rparr>) s1
                in case createAnswer eng k of
                     None \<Rightarrow> s2
                   | Some asdp \<Rightarrow>
                       if setLocalDescription eng k
                       then sendSignalingMessage (answer_message s2 asdp)
                              (update_pc k (\<lambda>p. p\<lparr>localDescription := Some (''answer'', asdp)\<rparr>) s2)
                       else s2)
             else s1
         | _ \<Rightarrow> s1)"

definition handle_answer :: "engine \<Rightarrow> message \<Rightarrow> client \<Rightarrow> client" where
  "handle_answer eng m s =
     (let k = sender_id m
      in if has_peer s k then
           (case data m of
              SdpData sdp ty \<Rightarrow>
                if setRemoteDescription eng k
                then update_pc k (\<lambda>p. p\<lparr>remoteDescription := Some (ty, sdp)\<rparr>) s
                else s
            | _ \<Rightarrow> s)
         else s)"

definition handle_ice_candidate :: "engine \<Rightarrow> message \<Rightarrow> client \<Rightarrow> client" where
  "handle_ice_candidate eng m s =
     (let k = sender_id m
      in if has_peer s k then
           (case data m of
              IceData c \<Rightarrow>
                if addIceCandidate eng k
                then update_pc k (\<lambda>p. p\<lparr>iceCandidates := iceCandidates p @ [c]\<rparr>) s
                else s
            | _ \<Rightarrow> s)
         else s)"

definition handle_user_left :: "message \<Rightarrow> client \<Rightarrow> client" where
  "handle_user_left m s =
     (let k = sender_id m;
          s1 = (if has_peer s k
                then (log_effect (PcClose k) s)\<lparr>peers := AList.delete k (peers s)\<rparr>
                else s)
      in s1\<lparr>remoteStreams := AList.delete k (remoteStreams s1),
            remoteMuteStatus := AList.delete k (remoteMuteStatus s1),
            remoteUsernames := AList.delete k (remoteUsernames s1)\<rparr>)"

text \<open>
  \<open>connected\<close>: \<open>data?.user_id || data\<close> becomes the socket's \<open>userId\<close>. \<open>IdData i\<close>
  is a payload that is the identity string \<open>i\<close> itself, stored as it is (also when it
  is empty); \<open>UserIdData i\<close> is an object whose member \<open>user_id\<close> is \<open>i\<close>, stored
  when \<open>i\<close> is not empty. In every other case the value stored is \<open>undefined\<close> or an
  object; neither is ever equal to the identity of a message, and both are \<open>None\<close>
  here.
\<close>

definition handle_connected :: "message \<Rightarrow> client \<Rightarrow> client" where
  "handle_connected m s =
     (let u = (case data m of
                 IdData i \<Rightarrow> Some i
               | UserIdData i \<Rightarrow> (if i \<noteq> [] then Some i else None)
               | _ \<Rightarrow> None)
      in s\<lparr>wsRef := map_option (\<lambda>w. w\<lparr>userId := u\<rparr>) (wsRef s),
           isConnected := True, reconnectAttempts := 0, isLoading := False\<rparr>)"

text \<open>
  \<open>existing-participants\<close>: the callbacks of \<open>data.participants.map\<close> run one after the
  other up to their first \<open>await\<close>, so every peer connection is created (and entered
  in the map) before any offer is made; the offers follow.
\<close>

fun create_for_existing :: "string list \<Rightarrow> client \<Rightarrow> key list \<times> client" where
  "create_for_existing [] s = ([], s)"
| "create_for_existing (p # ps) s =
     (if Some p \<noteq> myUserId s \<and> \<not> has_peer s (Some p)
      then (case create_for_existing ps (createPeerConnection (Some p) s) of
              (ks, s') \<Rightarrow> (Some p # ks, s'))
      else create_for_existing ps s)"

fun offers_for :: "engine \<Rightarrow> key list \<Rightarrow> client \<Rightarrow> client" where
  "offers_for eng [] s = s"
| "offers_for eng (k # ks) s = offers_for eng ks (negotiate_offer eng k s)"

definition handle_existing_participants :: "engine \<Rightarrow> message \<Rightarrow> client \<Rightarrow> client" where
  "handle_existing_participants eng m s =
     (case data m of
        ParticipantsData ps \<Rightarrow>
          (case create_for_existing ps s of (ks, s') \<Rightarrow> offers_for eng ks s')
      | _ \<Rightarrow> s)"

definition handle_join :: "message \<Rightarrow> client \<Rightarrow> client" where
  "handle_join m s =
     (if truthy (sender_id m) \<and> truthy (user_id m) \<and> sender_id m \<noteq> myUserId s
      then s\<lparr>remoteUsernames := AList.update (sender_id m) (the (user_id m)) (remoteUsernames s)\<rparr>
      else s)"

definition handle_mute_status :: "message \<Rightarrow> client \<Rightarrow> client" where
  "handle_mute_status m s =
     (if truthy (sender_id m) \<and> sender_id m \<noteq> myUserId s
      then s\<lparr>remoteMuteStatus :=
               AList.update (sender_id m) (case data m of MuteData b \<Rightarrow> b | _ \<Rightarrow> False)
                 (remoteMuteStatus s)\<rparr>
      else s)"

text \<open>
  The message handler. \<open>emoji\<close> only drives an animation of the user interface, and
  \<open>error\<close> and unknown types are logged to the console: none of them touches the state
  modelled here.
\<close>

definition handleSignalingMessage :: "engine \<Rightarrow> message \<Rightarrow> client \<Rightarrow> client" where
  "handleSignalingMessage eng m s =
     (let actualSenderId = js_or (sender_id m) (user_id m)
      in if truthy actualSenderId \<and> actualSenderId = myUserId s \<and> mtype m \<noteq> UserJoined
            \<and> mtype m \<noteq> ExistingParticipants \<and> mtype m \<noteq> Connected
         then s
         else (case mtype m of
                 UserJoined \<Rightarrow> handle_user_joined eng m s
               | Offer \<Rightarrow> handle_offer eng m s
               | Answer \<Rightarrow> handle_answer eng m s
               | IceCandidate \<Rightarrow> handle_ice_candidate eng m s
               | UserLeft \<Rightarrow> handle_user_left m s
               | Connected \<Rightarrow> handle_connected m s
               | ExistingParticipants \<Rightarrow> handle_existing_participants eng m s
               | Join \<Rightarrow> handle_join m s
               | MuteStatus \<Rightarrow> handle_mute_status m s
               | _ \<Rightarrow> s))"

section \<open>Local media, screen sharing, leaving\<close>

text \<open>
  What the browser answers to \<open>getUserMedia\<close> and \<open>getDisplayMedia\<close>: the rejection of
  the promise, or the stream.
\<close>

record media_env =
  getUserMedia :: "js_error + stream"
  getDisplayMedia :: "js_error + stream"

definition initializeLocalStream :: "media_env \<Rightarrow> client \<Rightarrow> client" where
  "initializeLocalStream env s =
     (case getUserMedia env of
        Inr st \<Rightarrow> s\<lparr>localStream := Some st, isLoading := False\<rparr>
      | Inl e \<Rightarrow> s\<lparr>error := Some (MediaAccess (emessage e)), isLoading := False\<rparr>)"

text \<open>
  \<open>init\<close> of the mount effect; \<open>isMounted\<close> is the effect's local flag, cleared by the
  cleanup. The effect calls \<open>init\<close> once, with its flag \<open>initialized\<close> still
  \<open>false\<close>. \<open>initializeLocalStream\<close> catches its own errors; what
  \<open>connectWebSocket\<close> throws reaches the \<open>catch\<close> of \<open>init\<close>, which records
  the failure when the component is still mounted.
\<close>

definition init :: "bool \<Rightarrow> media_env \<Rightarrow> client \<Rightarrow> client" where
  "init isMounted env s =
     (let s1 = initializeLocalStream env s in
      if isMounted \<and> roomId s1 \<noteq> [] then
        (case connectWebSocket s1 of
           Inr s2 \<Rightarrow> s2
         | Inl (e, s2) \<Rightarrow>
             if isMounted
             then s2\<lparr>error := Some (InitializationFailed (emessage e)), isLoading := False\<rparr>
             else s2)
      else if roomId s1 = [] then s1\<lparr>error := Some RoomIdMissing, isLoading := False\<rparr>
      else s1)"

definition getVideoTracks :: "stream \<Rightarrow> track list" where
  "getVideoTracks st = filter (\<lambda>t. kind t = Video) st"

definition getAudioTracks :: "stream \<Rightarrow> track list" where
  "getAudioTracks st = filter (\<lambda>t. kind t = Audio) st"

definition first_track :: "track list \<Rightarrow> track option" where
  "first_track ts = (case ts of [] \<Rightarrow> None | t # _ \<Rightarrow> Some t)"

text \<open>
  \<open>getSenders().find(s => s.track && s.track.kind === 'video')\<close> followed by
  \<open>replaceTrack\<close> on the sender found: the first sender that carries a video track gets
  the new track. The promise of \<open>replaceTrack\<close> is not awaited by the source.
\<close>

fun replace_video :: "track option \<Rightarrow> track option list \<Rightarrow> track option list" where
  "replace_video vt [] = []"
| "replace_video vt (None # xs) = None # replace_video vt xs"
| "replace_video vt (Some t # xs) =
     (if kind t = Video then vt # xs else Some t # replace_video vt xs)"

definition replace_in_peers :: "track option \<Rightarrow> client \<Rightarrow> client" where
  "replace_in_peers vt s =
     s\<lparr>peers := map (\<lambda>(k, p). (k, p\<lparr>senders := replace_video vt (senders p)\<rparr>)) (peers s)\<rparr>"

definition stop_tracks :: "track list \<Rightarrow> client \<Rightarrow> client" where
  "stop_tracks ts s = s\<lparr>effects := effects s @ map TrackStop ts\<rparr>"

definition toggle_catch :: "js_error \<Rightarrow> client \<Rightarrow> client" where
  "toggle_catch e s =
     (let s1 = s\<lparr>showScreenShareWarning := False\<rparr> in
      if ename e \<noteq> ''NotAllowedError'' then log_effect Alert s1 else s1)"

definition type_error :: js_error where
  "type_error = \<lparr>ename = ''TypeError'', emessage = ''undefined''\<rparr>"

definition add_track :: "track \<Rightarrow> stream \<Rightarrow> stream" where
  "add_track t st = (if t \<in> set st then st else st @ [t])"

text \<open>
  The branch \<open>!isScreenSharing\<close> of \<open>toggleScreenShare\<close>. Reading \<open>[0]\<close> of an empty
  track list gives \<open>undefined\<close>; using it (\<open>addTrack(undefined)\<close>, \<open>.stop()\<close>,
  \<open>.onended =\<close>) throws a \<open>TypeError\<close> that the \<open>catch\<close> of the function receives,
  with the updates made so far kept.
\<close>

definition start_screen_share :: "media_env \<Rightarrow> client \<Rightarrow> client" where
  "start_screen_share env s =
     (case getDisplayMedia env of
        Inl e \<Rightarrow> toggle_catch e s
      | Inr screenStream \<Rightarrow>
          (let videoTrack = first_track (getVideoTracks screenStream);
               s1 = replace_in_peers videoTrack (s\<lparr>showScreenShareWarning := True\<rparr>);
               finish = (\<lambda>st s2.
                  (let s3 = s2\<lparr>localStream := Some st\<rparr> in
                   case videoTrack of
                     None \<Rightarrow> toggle_catch type_error s3
                   | Some _ \<Rightarrow> s3\<lparr>isScreenSharing := True\<rparr>))
           in case localStream s1 of
                None \<Rightarrow> finish screenStream s1
              | Some ls \<Rightarrow>
                  (case first_track (getAudioTracks ls) of
                     None \<Rightarrow> toggle_catch type_error s1
                   | Some audioTrack \<Rightarrow>
                       (case first_track (getVideoTracks ls) of
                          None \<Rightarrow> toggle_catch type_error s1
                        | Some cam \<Rightarrow>
                            finish (add_track audioTrack screenStream)
                              (stop_tracks [cam] s1)))))"

text \<open>The branch \<open>isScreenSharing\<close>: back to a camera stream acquired afresh.\<close>

definition stop_screen_share :: "media_env \<Rightarrow> client \<Rightarrow> client" where
  "stop_screen_share env s =
     (case getUserMedia env of
        Inl e \<Rightarrow> toggle_catch e s
      | Inr cameraStream \<Rightarrow>
          (let videoTrack = first_track (getVideoTracks cameraStream);
               s1 = replace_in_peers videoTrack s;
               s2 = (case localStream s1 of
                       None \<Rightarrow> s1
                     | Some ls \<Rightarrow> stop_tracks (getVideoTracks ls) s1)
           in s2\<lparr>localStream := Some cameraStream, isScreenSharing := False,
                 showScreenShareWarning := False\<rparr>))"

text \<open>
  \<open>toggleScreenShare\<close> is a closure created by one render of the component:
  \<open>isScreenSharing\<close> inside it is that render's constant, the first argument here. A
  click runs the closure of the latest render, whose constant is the current state.
  The \<open>onended\<close> handler of the shared track is installed by the branch
  \<open>!isScreenSharing\<close> only, and the \<open>toggleScreenShare\<close> it calls is the closure that
  installed it: the one whose constant is \<open>false\<close>.
\<close>

definition toggleScreenShare :: "bool \<Rightarrow> media_env \<Rightarrow> client \<Rightarrow> client" where
  "toggleScreenShare sharing env s =
     (if \<not> sharing then start_screen_share env s else stop_screen_share env s)"

definition click_toggleScreenShare :: "media_env \<Rightarrow> client \<Rightarrow> client" where
  "click_toggleScreenShare env s = toggleScreenShare (isScreenSharing s) env s"

definition videoTrack_onended :: "media_env \<Rightarrow> client \<Rightarrow> client" where
  "videoTrack_onended env s = toggleScreenShare False env (s\<lparr>showScreenShareWarning := False\<rparr>)"

definition leave_message :: "client \<Rightarrow> message" where
  "leave_message s =
     \<lparr>mtype = Leave, room_id = Some (roomId s), sender_id = None, user_id = None,
      data = NoData\<rparr>"

text \<open>
  \<open>handleLeave\<close>, block by block: close and clear the peer connections, stop the tracks
  of the local stream, send \<open>leave\<close> on an open socket, close the socket and drop the
  reference, clear the reconnection timer, call the parent's \<open>onLeave\<close>.
\<close>

definition close_all_peers :: "client \<Rightarrow> client" where
  "close_all_peers s =
     s\<lparr>effects := effects s @ map (\<lambda>(k, p). PcClose k) (peers s), peers := []\<rparr>"

definition stop_local_stream :: "client \<Rightarrow> client" where
  "stop_local_stream s = (case localStream s of None \<Rightarrow> s | Some ls \<Rightarrow> stop_tracks ls s)"

definition send_leave :: "client \<Rightarrow> client" where
  "send_leave s = (if wsOpen s then log_effect (Send (leave_message s)) s else s)"

definition close_socket :: "client \<Rightarrow> client" where
  "close_socket s =
     (case wsRef s of None \<Rightarrow> s | Some w \<Rightarrow> (log_effect WsClose s)\<lparr>wsRef := None\<rparr>)"

definition clear_reconnect_timer :: "client \<Rightarrow> client" where
  "clear_reconnect_timer s =
     (case reconnectTimeoutRef s of
        None \<Rightarrow> s
      | Some t \<Rightarrow> if t \<noteq> 0 then clearTimeout t s else s)"

definition handleLeave :: "client \<Rightarrow> client" where
  "handleLeave s =
     log_effect OnLeave
       (clear_reconnect_timer (close_socket (send_leave (stop_local_stream (close_all_peers s)))))"

section \<open>Room lookup (frontend/src/utils/api.js)\<close>

datatype json =
    JNull | JBool bool | JNum int | JStr string | JArr "json list"
  | JObj "(string \<times> json) list"

datatype jsval = Undefined | Val json

record response =
  status :: nat
  json_body :: "json option"

text \<open>
  \<open>response.ok\<close> is a status in the range 200 to 299. \<open>json_body\<close> is what
  \<open>response.json()\<close> resolves to, \<open>None\<close> when the body does not parse.
\<close>

definition ok :: "response \<Rightarrow> bool" where
  "ok r = (200 \<le> status r \<and> status r \<le> 299)"

fun json_truthy :: "json \<Rightarrow> bool" where
  "json_truthy JNull = False"
| "json_truthy (JBool b) = b"
| "json_truthy (JNum n) = (n \<noteq> 0)"
| "json_truthy (JStr t) = (t \<noteq> [])"
| "json_truthy (JArr _) = True"
| "json_truthy (JObj _) = True"

definition jsval_truthy :: "jsval \<Rightarrow> bool" where
  "jsval_truthy v = (case v of Undefined \<Rightarrow> False | Val j \<Rightarrow> json_truthy j)"

text \<open>
  \<open>data.exists\<close>: reading a property of \<open>null\<close> throws; an object parsed from JSON has
  the value of the last member of that name; any other value has no such property.
\<close>

fun get_exists :: "json \<Rightarrow> js_error + jsval" where
  "get_exists JNull = Inl type_error"
| "get_exists (JObj kvs) =
     Inr (case map_of (rev kvs) ''exists'' of None \<Rightarrow> Undefined | Some v \<Rightarrow> Val v)"
| "get_exists _ = Inr Undefined"

fun str_includes :: "string \<Rightarrow> string \<Rightarrow> bool" where
  "str_includes [] pat = (pat = [])"
| "str_includes (c # cs) pat = (take (length pat) (c # cs) = pat \<or> str_includes cs pat)"

fun digit_char :: "nat \<Rightarrow> char" where
  "digit_char n = char_of (48 + n)"

fun string_of_nat :: "nat \<Rightarrow> string" where
  "string_of_nat n =
     (if n < 10 then [digit_char n] else string_of_nat (n div 10) @ [digit_char (n mod 10)])"

definition http_error :: "nat \<Rightarrow> js_error" where
  "http_error st = \<lparr>ename = ''Error'', emessage = ''HTTP error! status: '' @ string_of_nat st\<rparr>"

definition syntax_error :: js_error where
  "syntax_error = \<lparr>ename = ''SyntaxError'', emessage = ''Unexpected token''\<rparr>"

definition network_error :: js_error where
  "network_error =
     \<lparr>ename = ''Error'',
      emessage = ''Network error: Could not connect to backend server. Make sure it is running on port 8000.''\<rparr>"

definition checkRoomExists_try :: "(js_error + response) \<Rightarrow> js_error + jsval" where
  "checkRoomExists_try fetched =
     (case fetched of
        Inl e \<Rightarrow> Inl e
      | Inr r \<Rightarrow>
          if status r = 404 then Inr (Val (JBool False))
          else if \<not> ok r then Inl (http_error (status r))
          else (case json_body r of
                  None \<Rightarrow> Inl syntax_error
                | Some d \<Rightarrow>
                    (case get_exists d of
                       Inl e \<Rightarrow> Inl e
                     | Inr v \<Rightarrow> Inr (if jsval_truthy v then v else Val (JBool False)))))"

text \<open>
  \<open>checkRoomExists\<close>: \<open>fetch\<close> is the browser's answer for a URL, the rejection of the
  promise or the response. The \<open>catch\<close> turns a \<open>TypeError\<close> whose message contains
  \<open>fetch\<close> into the network error and rethrows anything else.
\<close>

definition checkRoomExists ::
  "string \<Rightarrow> (string \<Rightarrow> js_error + response) \<Rightarrow> string \<Rightarrow> js_error + jsval" where
  "checkRoomExists api_base_url fetch rid =
     (case checkRoomExists_try (fetch (api_base_url @ ''/rooms/'' @ rid)) of
        Inl e \<Rightarrow>
          if ename e = ''TypeError'' \<and> str_includes (emessage e) ''fetch''
          then Inl network_error else Inl e
      | Inr v \<Rightarrow> Inr v)"

text \<open>The value of \<open>data.exists\<close> for a body that is not \<open>null\<close>.\<close>

definition exists_of :: "json \<Rightarrow> jsval" where
  "exists_of d = (case get_exists d of Inr v \<Rightarrow> v | Inl e \<Rightarrow> Undefined)"

section \<open>The state at mount\<close>

text \<open>The initial values of the component's \<open>useState\<close> and \<open>useRef\<close> cells.\<close>

definition initial_client :: "string \<Rightarrow> string \<Rightarrow> client" where
  "initial_client r u =
     \<lparr>roomId = r, username = u, localStream = None, peers = [], wsRef = None,
      reconnectTimeoutRef = None, reconnectAttempts = 0, isConnected = False,
      isLoading = True, error = None, isScreenSharing = False,
      showScreenShareWarning = False, remoteStreams = [], remoteMuteStatus = [],
      remoteUsernames = [], timers = [], nextTimer = 1, effects = []\<rparr>"

text \<open>
  A client that has mounted without media, connected its socket and sent \<open>join\<close>.
\<close>

definition joined_client :: client where
  "joined_client =
     ws_onopen (socket_becomes OPEN
       (state_after (connectWebSocket (initial_client ''room-1'' ''ann''))))"

section \<open>Observations on a state\<close>

text \<open>
  The peer map holds one entry per key; the keys for which an \<open>RTCPeerConnection\<close> was
  constructed, in order; the messages sent on the socket, in order.
\<close>

definition one_link_per_peer :: "client \<Rightarrow> bool" where
  "one_link_per_peer s = distinct (map fst (peers s))"

definition pc_news :: "effect list \<Rightarrow> key list" where
  "pc_news es = concat (map (\<lambda>e. case e of PcNew k \<Rightarrow> [k] | _ \<Rightarrow> []) es)"

definition created :: "client \<Rightarrow> key list" where
  "created s = pc_news (effects s)"

definition sends :: "effect list \<Rightarrow> message list" where
  "sends es = concat (map (\<lambda>e. case e of Send m \<Rightarrow> [m] | _ \<Rightarrow> []) es)"

definition sent :: "client \<Rightarrow> message list" where
  "sent s = sends (effects s)"

text \<open>
  Between two states: connections were constructed only for keys that had none, each at
  most once.
\<close>

definition only_if_none :: "client \<Rightarrow> client \<Rightarrow> bool" where
  "only_if_none s s' =
     (\<exists>ks. created s' = created s @ ks \<and> distinct ks \<and> list_all (\<lambda>k. \<not> has_peer s k) ks)"

text \<open>
  The test at the head of \<open>handleSignalingMessage\<close> that makes it ignore a message of
  the client's own (for the types it applies to).
\<close>

definition from_self :: "message \<Rightarrow> client \<Rightarrow> bool" where
  "from_self m s =
     (truthy (js_or (sender_id m) (user_id m)) \<and> js_or (sender_id m) (user_id m) = myUserId s)"

definition peer_of :: "client \<Rightarrow> key \<Rightarrow> pc option" where
  "peer_of s k = map_of (peers s) k"

text \<open>
  What signaling has negotiated on each PeerLink, and the audio tracks a PeerLink sends.
\<close>

definition signaling_view ::
  "client \<Rightarrow> (key \<times> (string \<times> string) option \<times> (string \<times> string) option \<times> candidate list) list" where
  "signaling_view s =
     map (\<lambda>(k, p). (k, localDescription p, remoteDescription p, iceCandidates p)) (peers s)"

fun audio_sent :: "track option list \<Rightarrow> track list" where
  "audio_sent [] = []"
| "audio_sent (None # xs) = audio_sent xs"
| "audio_sent (Some t # xs) = (if kind t = Audio then t # audio_sent xs else audio_sent xs)"

definition audio_view :: "client \<Rightarrow> (key \<times> track list) list" where
  "audio_view s = map (\<lambda>(k, p). (k, audio_sent (senders p))) (peers s)"

section \<open>The scenario of the specification: clients c1 and c2 in one room\<close>

text \<open>
  An engine that accepts every operation, and the messages of the scenario: the server
  tells the first client its identity \<open>c1\<close>; later \<open>c2\<close> joins.
\<close>

definition engine_ok :: engine where
  "engine_ok =
     \<lparr>createOffer = (\<lambda>k. Some ''v=0 offer''), createAnswer = (\<lambda>k. Some ''v=0 answer''),
      setLocalDescription = (\<lambda>k. True), setRemoteDescription = (\<lambda>k. True),
      addIceCandidate = (\<lambda>k. True)\<rparr>"

text \<open>An engine that refuses every description and makes no offer.\<close>

definition engine_refusing :: engine where
  "engine_refusing =
     \<lparr>createOffer = (\<lambda>k. None), createAnswer = (\<lambda>k. Some ''v=0 answer''),
      setLocalDescription = (\<lambda>k. False), setRemoteDescription = (\<lambda>k. False),
      addIceCandidate = (\<lambda>k. False)\<rparr>"

definition from_server :: "mtype \<Rightarrow> string option \<Rightarrow> string option \<Rightarrow> payload \<Rightarrow> message" where
  "from_server t sid uid d =
     \<lparr>mtype = t, room_id = Some ''room-1'', sender_id = sid, user_id = uid, data = d\<rparr>"

definition client_c1 :: client where
  "client_c1 =
     handleSignalingMessage engine_ok (from_server Connected None None (IdData ''c1''))
       joined_client"

definition a_candidate :: candidate where
  "a_candidate = \<lparr>cand = ''candidate:1 1 udp 1 10.0.0.2 5000 typ host'', sdpMLineIndex = 0,
                   sdpMid = ''0''\<rparr>"

definition user_joined_c2 :: message where
  "user_joined_c2 = from_server UserJoined None (Some ''c2'') NoData"

definition c1_after_join :: client where
  "c1_after_join = handleSignalingMessage engine_ok user_joined_c2 client_c1"

definition ice_from_c2 :: message where
  "ice_from_c2 = from_server IceCandidate (Some ''c2'') None (IceData a_candidate)"

definition offer_from_c2 :: message where
  "offer_from_c2 = from_server Offer (Some ''c2'') None (SdpData ''v=0 remote'' ''offer'')"

definition offer_from_c1 :: message where
  "offer_from_c1 = from_server Offer (Some ''c1'') None (SdpData ''v=0 remote'' ''offer'')"

definition answer_from_c2 :: message where
  "answer_from_c2 = from_server Answer (Some ''c2'') None (SdpData ''v=0 remote'' ''answer'')"


definition fetch_answers :: "js_error + response \<Rightarrow> string \<Rightarrow> js_error + response" where
  "fetch_answers a url = a"

definition null_body_200 :: response where
  "null_body_200 = \<lparr>status = 200, json_body = Some JNull\<rparr>"

definition no_json_200 :: response where
  "no_json_200 = \<lparr>status = 200, json_body = None\<rparr>"

definition exists_body_200 :: response where
  "exists_body_200 =
     \<lparr>status = 200, json_body = Some (JObj [(''room_id'', JStr ''room-1''), (''exists'', JBool True)])\<rparr>"

definition not_found_404 :: response where
  "not_found_404 = \<lparr>status = 404, json_body = Some (JObj [(''detail'', JStr ''Room not found'')])\<rparr>"

definition local_backend :: string where
  "local_backend = ''http://localhost:8000''"

text \<open>
  Leaving during a reconnection: the socket of \<open>c1\<close> is lost (code 1006), the retry timer
  fires, and the new socket is still connecting.
\<close>

definition reconnecting_c1 :: client where
  "reconnecting_c1 = timer_fires 1 (ws_onclose 1006 (socket_becomes CLOSED client_c1))"

text \<open>
  A call with media: \<open>c1\<close> has microphone and camera, answers the offer of \<open>c2\<close> and
  then shares its screen by a click.
\<close>

definition mic_track :: track where
  "mic_track = \<lparr>tid = 1, kind = Audio\<rparr>"

definition camera_track :: track where
  "camera_track = \<lparr>tid = 2, kind = Video\<rparr>"

definition screen_track :: track where
  "screen_track = \<lparr>tid = 3, kind = Video\<rparr>"

definition fresh_mic_track :: track where
  "fresh_mic_track = \<lparr>tid = 4, kind = Audio\<rparr>"

definition fresh_camera_track :: track where
  "fresh_camera_track = \<lparr>tid = 5, kind = Video\<rparr>"

definition media_granted :: media_env where
  "media_granted =
     \<lparr>getUserMedia = Inr [mic_track, camera_track], getDisplayMedia = Inr [screen_track]\<rparr>"

text \<open>
  Later in the call: the camera can be acquired again; a second \<open>getDisplayMedia\<close>,
  asked for without a click of the user, is refused.
\<close>

definition media_later :: media_env where
  "media_later =
     \<lparr>getUserMedia = Inr [fresh_mic_track, fresh_camera_track],
      getDisplayMedia = Inl \<lparr>ename = ''InvalidStateError'', emessage = ''No user activation''\<rparr>\<rparr>"

definition c1_with_media :: client where
  "c1_with_media =
     handleSignalingMessage engine_ok (from_server Connected None None (IdData ''c1''))
       (ws_onopen (socket_becomes OPEN
         (init True media_granted (initial_client ''room-1'' ''ann''))))"

definition c1_in_call :: client where
  "c1_in_call = handleSignalingMessage engine_ok offer_from_c2 c1_with_media"

definition c1_sharing :: client where
  "c1_sharing = click_toggleScreenShare media_granted c1_in_call"

section \<open>Properties of the reconnection controller\<close>

lemma scheduled_delays_cong:
  "effects a = effects b \<Longrightarrow> scheduled_delays a = scheduled_delays b"
  by (simp add: scheduled_delays_def)

lemma connectWebSocket_frame:
  "reconnectAttempts (state_after (connectWebSocket s)) = reconnectAttempts s"
  "scheduled_delays (state_after (connectWebSocket s)) = scheduled_delays s"
  "timers (state_after (connectWebSocket s)) = timers s"
  "nextTimer (state_after (connectWebSocket s)) = nextTimer s"
  by (simp_all add: connectWebSocket_def state_after_def constructor_rejects_def log_effect_def scheduled_delays_def
      Let_def)

lemma timer_fires_frame:
  "reconnectAttempts (timer_fires t s) = reconnectAttempts s"
  "scheduled_delays (timer_fires t s) = scheduled_delays s"
  "set (timers (timer_fires t s)) \<subseteq> set (timers s)"
  by (auto simp add: timer_fires_def connectWebSocket_frame intro: scheduled_delays_cong)

lemma retry_socket_fails_frame:
  "reconnectAttempts (retry_socket_fails s) = reconnectAttempts s"
  "scheduled_delays (retry_socket_fails s) = scheduled_delays s"
  "set (timers (retry_socket_fails s)) \<subseteq> set (timers s)"
proof -
  let ?s1 = "case reconnectTimeoutRef s of None \<Rightarrow> s | Some t \<Rightarrow> timer_fires t s"
  have 1: "reconnectAttempts ?s1 = reconnectAttempts s"
    "scheduled_delays ?s1 = scheduled_delays s"
    "set (timers ?s1) \<subseteq> set (timers s)"
    by (simp_all add: timer_fires_frame split: option.split)
  have e: "effects (retry_socket_fails s) = effects ?s1"
    "timers (retry_socket_fails s) = timers ?s1"
    "reconnectAttempts (retry_socket_fails s) = reconnectAttempts ?s1"
    by (simp_all add: retry_socket_fails_def socket_becomes_def ws_onerror_def)
  show "reconnectAttempts (retry_socket_fails s) = reconnectAttempts s"
    using e 1 by simp
  show "scheduled_delays (retry_socket_fails s) = scheduled_delays s"
    using scheduled_delays_cong[OF e(1)] 1 by simp
  show "set (timers (retry_socket_fails s)) \<subseteq> set (timers s)"
    using e 1 by simp
qed

lemma ws_onclose_retry:
  assumes "abnormal c" "reconnectAttempts s < 5"
  shows "reconnectAttempts (ws_onclose c s) = Suc (reconnectAttempts s)"
    and "scheduled_delays (ws_onclose c s) =
           scheduled_delays s @ [reconnect_delay (Suc (reconnectAttempts s))]"
  using assms
  by (simp_all add: ws_onclose_def abnormal_def maxReconnectAttempts_def Let_def
      setTimeout_reconnect_def scheduled_delays_def)

lemma ws_onclose_give_up:
  assumes "abnormal c" "\<not> reconnectAttempts s < 5"
  shows "ws_onclose c s = s\<lparr>isConnected := False, error := Some FailedToConnect\<rparr>"
  using assms
  by (simp add: ws_onclose_def abnormal_def maxReconnectAttempts_def Let_def)

lemma failed_attempts_schedule:
  assumes "list_all abnormal cs" "reconnectAttempts s + length cs \<le> 5"
  shows "reconnectAttempts (failed_attempts cs s) = reconnectAttempts s + length cs \<and>
         scheduled_delays (failed_attempts cs s) =
           scheduled_delays s @
           map reconnect_delay
             [Suc (reconnectAttempts s) ..< Suc (reconnectAttempts s + length cs)]"
  using assms
proof (induction cs arbitrary: s)
  case Nil
  then show ?case by simp
next
  case (Cons c cs)
  let ?s1 = "failed_attempt c s"
  have a: "abnormal c" and r: "reconnectAttempts (retry_socket_fails s) < 5"
    using Cons.prems by (simp_all add: retry_socket_fails_frame)
  have n1: "reconnectAttempts ?s1 = Suc (reconnectAttempts s)"
    by (simp add: failed_attempt_def ws_onclose_retry(1)[OF a r] retry_socket_fails_frame)
  have d1: "scheduled_delays ?s1 =
              scheduled_delays s @ [reconnect_delay (Suc (reconnectAttempts s))]"
    by (simp add: failed_attempt_def ws_onclose_retry(2)[OF a r] retry_socket_fails_frame)
  have "reconnectAttempts (failed_attempts cs ?s1) = reconnectAttempts ?s1 + length cs \<and>
        scheduled_delays (failed_attempts cs ?s1) =
          scheduled_delays ?s1 @
          map reconnect_delay
            [Suc (reconnectAttempts ?s1) ..< Suc (reconnectAttempts ?s1 + length cs)]"
    using Cons.prems by (intro Cons.IH) (simp_all add: n1)
  then show ?case
    by (simp add: n1 d1 upt_conv_Cons del: upt_Suc)
qed

lemma failed_attempt_give_up:
  assumes "abnormal c" "\<not> reconnectAttempts x < 5"
  shows "scheduled_delays (failed_attempt c x) = scheduled_delays x
       \<and> set (timers (failed_attempt c x)) \<subseteq> set (timers x)
       \<and> error (failed_attempt c x) = Some FailedToConnect"
proof -
  have full: "\<not> reconnectAttempts (retry_socket_fails x) < 5"
    using assms(2) by (simp add: retry_socket_fails_frame)
  have eq: "failed_attempt c x =
              (retry_socket_fails x)\<lparr>isConnected := False, error := Some FailedToConnect\<rparr>"
    unfolding failed_attempt_def by (rule ws_onclose_give_up[OF assms(1) full])
  have "effects (failed_attempt c x) = effects (retry_socket_fails x)"
    by (simp add: eq)
  then have "scheduled_delays (failed_attempt c x) = scheduled_delays x"
    using scheduled_delays_cong retry_socket_fails_frame(2) by metis
  moreover have "set (timers (failed_attempt c x)) \<subseteq> set (timers x)"
    using retry_socket_fails_frame(3)[of x] by (simp add: eq)
  moreover have "error (failed_attempt c x) = Some FailedToConnect"
    by (simp add: eq)
  ultimately show ?thesis by blast
qed

lemma first_five_delays:
  "map reconnect_delay [Suc 0 ..< 6] = [2000, 4000, 8000, 16000, 30000]"
  by (simp add: reconnect_delay_def upt_conv_Cons del: upt_Suc)

text \<open>
  C3. From a state whose attempt counter is zero, five consecutive abnormal closures
  schedule retries after exactly 2 s, 4 s, 8 s, 16 s and 30 s, in that order; the sixth
  schedules nothing (no \<open>setTimeout\<close>, no new pending timer) and surfaces the fatal
  error; and both the \<open>open\<close> event of a socket and the \<open>connected\<close> message put the
  counter back to zero.
\<close>

theorem reconnect_backoff_schedule:
  assumes "reconnectAttempts s = 0" and "list_all abnormal [c1, c2, c3, c4, c5, c6]"
  shows "scheduled_delays (failed_attempts [c1, c2, c3, c4, c5] s) =
           scheduled_delays s @ [2000, 4000, 8000, 16000, 30000]
       \<and> scheduled_delays (failed_attempts [c1, c2, c3, c4, c5, c6] s) =
           scheduled_delays (failed_attempts [c1, c2, c3, c4, c5] s)
       \<and> set (timers (failed_attempts [c1, c2, c3, c4, c5, c6] s)) \<subseteq>
           set (timers (failed_attempts [c1, c2, c3, c4, c5] s))
       \<and> error (failed_attempts [c1, c2, c3, c4, c5, c6] s) = Some FailedToConnect
       \<and> reconnectAttempts (ws_onopen s') = 0
       \<and> reconnectAttempts (handle_connected m s') = 0"
proof -
  let ?s5 = "failed_attempts [c1, c2, c3, c4, c5] s"
  have five: "list_all abnormal [c1, c2, c3, c4, c5]" and six: "abnormal c6"
    using assms(2) by simp_all
  have le: "reconnectAttempts s + length [c1, c2, c3, c4, c5] \<le> 5"
    using assms(1) by simp
  have idx: "[Suc (reconnectAttempts s) ..<
               Suc (reconnectAttempts s + length [c1, c2, c3, c4, c5])] = [Suc 0 ..< 6]"
    using assms(1) by (simp add: upt_conv_Cons)
  note fs = failed_attempts_schedule[OF five le, unfolded idx first_five_delays]
  have s5: "reconnectAttempts ?s5 = 5"
    "scheduled_delays ?s5 = scheduled_delays s @ [2000, 4000, 8000, 16000, 30000]"
    using fs assms(1) by simp_all
  have split6: "failed_attempts [c1, c2, c3, c4, c5, c6] s = failed_attempt c6 ?s5"
    by simp
  have full: "\<not> reconnectAttempts ?s5 < 5"
    using s5(1) by simp
  note g = failed_attempt_give_up[OF six full]
  have d6: "scheduled_delays (failed_attempt c6 ?s5) = scheduled_delays ?s5"
    and t6: "set (timers (failed_attempt c6 ?s5)) \<subseteq> set (timers ?s5)"
    and e6: "error (failed_attempt c6 ?s5) = Some FailedToConnect"
    using g by blast+
  have r: "reconnectAttempts (ws_onopen s') = 0" "reconnectAttempts (handle_connected m s') = 0"
    by (simp_all add: ws_onopen_def log_effect_def handle_connected_def Let_def)
  show ?thesis
    unfolding split6 using s5(2) d6 t6 e6 r by blast
qed

theorem reconnect_backoff_schedule_witness:
  "reconnectAttempts joined_client = 0
   \<and> list_all abnormal [1006, 1006, 1001, 1011, 1006, 1006]
   \<and> scheduled_delays (failed_attempts [1006, 1006, 1001, 1011, 1006] joined_client) =
        [2000, 4000, 8000, 16000, 30000]
   \<and> error (failed_attempts [1006, 1006, 1001, 1011, 1006, 1006] joined_client) =
        Some FailedToConnect"
proof -
  have a: "reconnectAttempts joined_client = 0"
    by (simp add: joined_client_def ws_onopen_def log_effect_def)
  have b: "list_all abnormal [1006, 1006, 1001, 1011, 1006, 1006]"
    by (simp add: abnormal_def)
  have c: "scheduled_delays joined_client = []"
    by (simp add: joined_client_def ws_onopen_def socket_becomes_def connectWebSocket_def state_after_def constructor_rejects_def
        initial_client_def log_effect_def wsOpen_def scheduled_delays_def Let_def)
  show ?thesis
    using reconnect_backoff_schedule[OF a b] a b c by simp
qed

lemma five_failures:
  "reconnectAttempts (failed_attempts [1006, 1006, 1006, 1006, 1006] joined_client) = 5"
proof -
  have a: "reconnectAttempts joined_client = 0"
    by (simp add: joined_client_def ws_onopen_def log_effect_def)
  have "list_all abnormal [1006, 1006, 1006, 1006, 1006]"
    by (simp add: abnormal_def)
  from failed_attempts_schedule[OF this, of joined_client] a show ?thesis by simp
qed

text \<open>
  C5, as the code has it. The handler of \<open>close\<close> decides by the code of the event
  alone. Code 1008 surfaces the fatal room error and changes nothing else; code 1000
  changes nothing but the connection flag. Any other code schedules a retry with the
  backoff delay of the next attempt while fewer than five attempts are counted, and
  that is the only case in which a timer is added; once five are counted it surfaces
  the fatal connection error and schedules nothing.
\<close>

theorem close_code_policy:
  "ws_onclose 1008 s =
     s\<lparr>isConnected := False, error := Some (RoomDoesNotExist (roomId s))\<rparr>
   \<and> ws_onclose 1000 s = s\<lparr>isConnected := False\<rparr>
   \<and> ((timers (ws_onclose c s) \<noteq> timers s) =
        (c \<noteq> 1008 \<and> c \<noteq> 1000 \<and> reconnectAttempts s < 5))
   \<and> (c \<noteq> 1008 \<and> c \<noteq> 1000 \<and> reconnectAttempts s < 5 \<longrightarrow>
        timers (ws_onclose c s) =
          timers s @ [(nextTimer s, min (1000 * 2 ^ (reconnectAttempts s + 1)) 30000)]
        \<and> reconnectTimeoutRef (ws_onclose c s) = Some (nextTimer s)
        \<and> reconnectAttempts (ws_onclose c s) = reconnectAttempts s + 1
        \<and> error (ws_onclose c s) = error s)
   \<and> (c \<noteq> 1008 \<and> c \<noteq> 1000 \<and> \<not> reconnectAttempts s < 5 \<longrightarrow>
        ws_onclose c s = s\<lparr>isConnected := False, error := Some FailedToConnect\<rparr>)"
proof -
  have 1: "ws_onclose 1008 s =
     s\<lparr>isConnected := False, error := Some (RoomDoesNotExist (roomId s))\<rparr>"
    by (simp add: ws_onclose_def Let_def)
  have 2: "ws_onclose 1000 s = s\<lparr>isConnected := False\<rparr>"
    by (simp add: ws_onclose_def Let_def)
  have 4: "timers (ws_onclose c s) =
          timers s @ [(nextTimer s, min (1000 * 2 ^ (reconnectAttempts s + 1)) 30000)]
        \<and> reconnectTimeoutRef (ws_onclose c s) = Some (nextTimer s)
        \<and> reconnectAttempts (ws_onclose c s) = reconnectAttempts s + 1
        \<and> error (ws_onclose c s) = error s"
    if "c \<noteq> 1008 \<and> c \<noteq> 1000 \<and> reconnectAttempts s < 5"
    using that
    by (simp add: ws_onclose_def Let_def maxReconnectAttempts_def setTimeout_reconnect_def
        reconnect_delay_def)
  have 5: "ws_onclose c s = s\<lparr>isConnected := False, error := Some FailedToConnect\<rparr>"
    if "c \<noteq> 1008 \<and> c \<noteq> 1000 \<and> \<not> reconnectAttempts s < 5"
    using that by (simp add: ws_onclose_def Let_def maxReconnectAttempts_def)
  have 3: "(timers (ws_onclose c s) \<noteq> timers s) =
        (c \<noteq> 1008 \<and> c \<noteq> 1000 \<and> reconnectAttempts s < 5)"
  proof (cases "c \<noteq> 1008 \<and> c \<noteq> 1000 \<and> reconnectAttempts s < 5")
    case True
    then show ?thesis using 4 by simp
  next
    case False
    then have "timers (ws_onclose c s) = timers s"
      by (auto simp add: ws_onclose_def Let_def maxReconnectAttempts_def)
    then show ?thesis using False by simp
  qed
  show ?thesis using 1 2 3 4 5 by blast
qed

theorem close_code_policy_witness:
  "timers (ws_onclose 1006 joined_client) = [(1, 2000)]
   \<and> reconnectAttempts (ws_onclose 1006 joined_client) = 1
   \<and> ws_onclose 1006 (failed_attempts [1006, 1006, 1006, 1006, 1006] joined_client) =
       (failed_attempts [1006, 1006, 1006, 1006, 1006] joined_client)
         \<lparr>isConnected := False, error := Some FailedToConnect\<rparr>"
proof -
  have a: "reconnectAttempts joined_client = 0" "timers joined_client = []"
    "nextTimer joined_client = 1"
    by (simp_all add: joined_client_def ws_onopen_def socket_becomes_def
        connectWebSocket_def state_after_def constructor_rejects_def initial_client_def
        log_effect_def wsOpen_def ws_url_def Let_def)
  note p = close_code_policy[where c = 1006]
  have 1: "timers (ws_onclose 1006 joined_client) = [(1, 2000)]
     \<and> reconnectAttempts (ws_onclose 1006 joined_client) = 1"
    using p[where s = joined_client, THEN conjunct2, THEN conjunct2, THEN conjunct2,
        THEN conjunct1] a
    by simp
  have 2: "ws_onclose 1006 (failed_attempts [1006, 1006, 1006, 1006, 1006] joined_client) =
       (failed_attempts [1006, 1006, 1006, 1006, 1006] joined_client)
         \<lparr>isConnected := False, error := Some FailedToConnect\<rparr>"
    using p[where s = "failed_attempts [1006, 1006, 1006, 1006, 1006] joined_client",
        THEN conjunct2, THEN conjunct2, THEN conjunct2, THEN conjunct2] five_failures
    by simp
  show ?thesis using 1 2 by simp
qed

section \<open>Properties of the message handler\<close>

lemma has_peer_create [simp]: "has_peer (createPeerConnection k s) k' = (k' = k \<or> has_peer s k')"
  by (auto simp add: has_peer_def createPeerConnection_def log_effect_def update_conv')

lemma myUserId_create [simp]: "myUserId (createPeerConnection k s) = myUserId s"
  by (simp add: myUserId_def createPeerConnection_def log_effect_def)

lemma wsOpen_create [simp]: "wsOpen (createPeerConnection k s) = wsOpen s"
  by (simp add: wsOpen_def createPeerConnection_def log_effect_def)

lemma create_for_existing_skip:
  "(\<forall>p. P p \<longrightarrow> has_peer s (Some p)) \<Longrightarrow>
     create_for_existing (filter (\<lambda>p. \<not> P p) ps) s = create_for_existing ps s"
  by (induction ps arbitrary: s) (auto split: prod.splits)

lemma handle_user_joined_dup:
  "has_peer s (joinedUserId m) \<Longrightarrow> handle_user_joined eng m s = s"
  by (simp add: handle_user_joined_def)


lemma olp_create: "one_link_per_peer s \<Longrightarrow> one_link_per_peer (createPeerConnection k s)"
  by (simp add: one_link_per_peer_def createPeerConnection_def log_effect_def distinct_update)

lemma olp_update_pc: "one_link_per_peer s \<Longrightarrow> one_link_per_peer (update_pc k f s)"
  by (simp add: one_link_per_peer_def update_pc_def distinct_map_entry)

lemma olp_send: "one_link_per_peer (sendSignalingMessage m s) = one_link_per_peer s"
  by (simp add: one_link_per_peer_def sendSignalingMessage_def log_effect_def)

lemma olp_negotiate: "one_link_per_peer s \<Longrightarrow> one_link_per_peer (negotiate_offer eng k s)"
  by (simp add: negotiate_offer_def olp_send olp_update_pc split: option.splits)

lemma olp_offers_for: "one_link_per_peer s \<Longrightarrow> one_link_per_peer (offers_for eng ks s)"
  by (induction ks arbitrary: s) (simp_all add: olp_negotiate)

lemma create_for_existing_Cons:
  "create_for_existing (p # ps) s =
     (if Some p \<noteq> myUserId s \<and> \<not> has_peer s (Some p)
      then (Some p # fst (create_for_existing ps (createPeerConnection (Some p) s)),
            snd (create_for_existing ps (createPeerConnection (Some p) s)))
      else create_for_existing ps s)"
  by (simp split: prod.splits)

lemma olp_create_for_existing:
  "one_link_per_peer s \<Longrightarrow> one_link_per_peer (snd (create_for_existing ps s))"
  by (induction ps arbitrary: s)
     (simp_all add: create_for_existing_Cons olp_create del: create_for_existing.simps(2))

lemma olp_handle:
  "one_link_per_peer s \<Longrightarrow> one_link_per_peer (handleSignalingMessage eng m s)"
proof -
  assume i: "one_link_per_peer s"
  have 1: "one_link_per_peer (handle_user_joined eng m s)"
    using i by (simp add: handle_user_joined_def olp_negotiate olp_create)
  have 2: "one_link_per_peer (handle_offer eng m s)"
    using i by (simp add: handle_offer_def Let_def olp_send olp_update_pc olp_create
        split: payload.splits option.splits)
  have 3: "one_link_per_peer (handle_answer eng m s)"
    using i by (simp add: handle_answer_def Let_def olp_update_pc split: payload.splits)
  have 4: "one_link_per_peer (handle_ice_candidate eng m s)"
    using i by (simp add: handle_ice_candidate_def Let_def olp_update_pc split: payload.splits)
  have 5: "one_link_per_peer (handle_user_left m s)"
    using i by (simp add: handle_user_left_def Let_def one_link_per_peer_def log_effect_def distinct_delete)
  have 6: "one_link_per_peer (handle_connected m s)"
    using i by (simp add: handle_connected_def Let_def one_link_per_peer_def)
  have 7: "one_link_per_peer (handle_existing_participants eng m s)"
    using i olp_offers_for[OF olp_create_for_existing[OF i]]
    by (simp add: handle_existing_participants_def split: payload.splits prod.splits) (metis snd_conv)
  have 8: "one_link_per_peer (handle_join m s)" "one_link_per_peer (handle_mute_status m s)"
    using i by (simp_all add: handle_join_def handle_mute_status_def one_link_per_peer_def)
  show ?thesis
    using i 1 2 3 4 5 6 7 8
    by (simp add: handleSignalingMessage_def Let_def split: mtype.splits)
qed


lemma pc_news_append [simp]: "pc_news (xs @ ys) = pc_news xs @ pc_news ys"
  by (simp add: pc_news_def)

lemma pc_news_simps [simp]:
  "pc_news [] = []" "pc_news (PcNew k # es) = k # pc_news es"
  "pc_news (Send m # es) = pc_news es" "pc_news (PcClose k # es) = pc_news es"
  by (simp_all add: pc_news_def)

lemma sends_append [simp]: "sends (xs @ ys) = sends xs @ sends ys"
  by (simp add: sends_def)

lemma sends_simps [simp]:
  "sends [] = []" "sends (Send m # es) = m # sends es"
  "sends (PcNew k # es) = sends es" "sends (PcClose k # es) = sends es"
  by (simp_all add: sends_def)

lemma created_create: "created (createPeerConnection k s) = created s @ [k]"
  by (simp add: created_def createPeerConnection_def log_effect_def)

lemma created_update_pc [simp]: "created (update_pc k f s) = created s"
  by (simp add: created_def update_pc_def)

lemma created_send [simp]: "created (sendSignalingMessage m s) = created s"
  by (simp add: created_def sendSignalingMessage_def log_effect_def)

lemma created_negotiate [simp]: "created (negotiate_offer eng k s) = created s"
  by (simp add: negotiate_offer_def split: option.splits)

lemma created_offers_for [simp]: "created (offers_for eng ks s) = created s"
  by (induction ks arbitrary: s) simp_all

lemma has_peer_mono_cfe:
  "has_peer s k \<Longrightarrow> has_peer (snd (create_for_existing ps s)) k"
  by (induction ps arbitrary: s)
     (simp_all add: create_for_existing_Cons del: create_for_existing.simps(2))

lemma created_cfe:
  "created (snd (create_for_existing ps s)) = created s @ fst (create_for_existing ps s)"
  by (induction ps arbitrary: s)
     (simp_all add: create_for_existing_Cons created_create del: create_for_existing.simps(2))

lemma cfe_fresh:
  "has_peer s k \<Longrightarrow> k \<notin> set (fst (create_for_existing ps s))"
  by (induction ps arbitrary: s)
     (auto simp add: create_for_existing_Cons simp del: create_for_existing.simps(2))

lemma cfe_distinct: "distinct (fst (create_for_existing ps s))"
  by (induction ps arbitrary: s)
     (auto simp add: create_for_existing_Cons cfe_fresh simp del: create_for_existing.simps(2))

lemma oin_same: "created s' = created s \<Longrightarrow> only_if_none s s'"
  by (simp add: only_if_none_def)

lemma oin_handle: "only_if_none s (handleSignalingMessage eng m s)"
proof -
  have 1: "only_if_none s (handle_user_joined eng m s)"
    by (simp add: handle_user_joined_def only_if_none_def created_create)
  have 2: "only_if_none s (handle_offer eng m s)"
    by (simp add: handle_offer_def Let_def only_if_none_def created_create
        split: payload.splits option.splits)
  have 3: "only_if_none s (handle_answer eng m s)"
    by (rule oin_same) (simp add: handle_answer_def Let_def split: payload.splits)
  have 4: "only_if_none s (handle_ice_candidate eng m s)"
    by (rule oin_same) (simp add: handle_ice_candidate_def Let_def split: payload.splits)
  have 5: "only_if_none s (handle_user_left m s)"
    by (rule oin_same) (simp add: handle_user_left_def Let_def created_def log_effect_def)
  have 6: "only_if_none s (handle_connected m s)"
    by (rule oin_same) (simp add: handle_connected_def Let_def created_def)
  have 7: "only_if_none s (handle_existing_participants eng m s)"
  proof (cases "data m")
    case (ParticipantsData ps)
    have "created (offers_for eng (fst (create_for_existing ps s)) (snd (create_for_existing ps s)))
            = created s @ fst (create_for_existing ps s)"
      by (simp add: created_cfe)
    moreover have "list_all (\<lambda>k. \<not> has_peer s k) (fst (create_for_existing ps s))"
      using cfe_fresh by (auto simp add: list_all_iff)
    ultimately show ?thesis
      using cfe_distinct[of ps s] ParticipantsData
      by (auto simp add: handle_existing_participants_def only_if_none_def split: prod.splits)
  qed (simp_all add: handle_existing_participants_def only_if_none_def)
  have 8: "only_if_none s (handle_join m s)" "only_if_none s (handle_mute_status m s)"
    by (rule oin_same, simp add: handle_join_def handle_mute_status_def created_def)+
  have 9: "only_if_none s s" by (simp add: only_if_none_def)
  show ?thesis
    using 1 2 3 4 5 6 7 8 9
    by (simp add: handleSignalingMessage_def Let_def split: mtype.splits)
qed

lemma joined_client_eval:
  "joined_client =
     \<lparr>roomId = ''room-1'', username = ''ann'', localStream = None, peers = [],
      wsRef = Some \<lparr>readyState = OPEN, userId = None\<rparr>,
      reconnectTimeoutRef = None, reconnectAttempts = 0, isConnected = True,
      isLoading = True, error = None, isScreenSharing = False,
      showScreenShareWarning = False, remoteStreams = [], remoteMuteStatus = [],
      remoteUsernames = [], timers = [], nextTimer = 1,
      effects = [WsNew ''ws://localhost:8000/ws/room-1'',
                 Send \<lparr>mtype = Join, room_id = Some ''room-1'', sender_id = None,
                       user_id = Some ''ann'', data = NoData\<rparr>]\<rparr>"
  by (simp add: joined_client_def ws_onopen_def socket_becomes_def connectWebSocket_def state_after_def constructor_rejects_def
      initial_client_def log_effect_def wsOpen_def join_message_def ws_url_def Let_def)

lemma client_c1_eval:
  "client_c1 = joined_client\<lparr>wsRef := Some \<lparr>readyState = OPEN, userId = Some ''c1''\<rparr>, isLoading := False\<rparr>"
  by (simp add: client_c1_def handleSignalingMessage_def handle_connected_def from_server_def
      joined_client_eval js_or_def truthy_def myUserId_def Let_def)

lemma client_c1_facts:
  "peers client_c1 = []" "myUserId client_c1 = Some ''c1''" "wsOpen client_c1"
  "roomId client_c1 = ''room-1''"
  by (simp_all add: client_c1_eval joined_client_eval myUserId_def wsOpen_def)

lemma c1_after_join_eval:
  "c1_after_join =
     client_c1\<lparr>peers := [(Some ''c2'', \<lparr>senders = [], localDescription = Some (''offer'', ''v=0 offer''),
                                    remoteDescription = None, iceCandidates = []\<rparr>)],
               effects := effects client_c1 @
                  [PcNew (Some ''c2''),
                   Send \<lparr>mtype = Offer, room_id = Some ''room-1'', sender_id = None,
                         user_id = None, data = SdpData ''v=0 offer'' ''offer''\<rparr>]\<rparr>"
  by (simp add: c1_after_join_def user_joined_c2_def from_server_def handleSignalingMessage_def
      handle_user_joined_def joinedUserId_def js_or_def truthy_def client_c1_facts has_peer_def
      negotiate_offer_def engine_ok_def createPeerConnection_def log_effect_def new_pc_def
      update_pc_def sendSignalingMessage_def wsOpen_def offer_message_def sdp_message_def
      myUserId_def client_c1_eval joined_client_eval)

text \<open>
  C4. One PeerLink per remote identity. Whatever the message, the handler keeps the keys
  of the peer map distinct and constructs a connection only for a key that has none,
  at most once. A \<open>user-joined\<close> for an identity that has a PeerLink leaves the
  whole state, the log of sent messages included, as it was; the entries of an
  \<open>existing-participants\<close> list that have a PeerLink are skipped, and a list of such
  entries only leaves the state as it was.
\<close>

theorem one_link_per_identity:
  "(one_link_per_peer s \<longrightarrow> one_link_per_peer (handleSignalingMessage eng m s))
   \<and> only_if_none s (handleSignalingMessage eng m s)
   \<and> (mtype m = UserJoined \<and> has_peer s (joinedUserId m) \<longrightarrow>
        handleSignalingMessage eng m s = s)
   \<and> (mtype m = ExistingParticipants \<and> data m = ParticipantsData ps \<longrightarrow>
        handleSignalingMessage eng m s =
          handleSignalingMessage eng
            (m\<lparr>data := ParticipantsData (filter (\<lambda>p. \<not> has_peer s (Some p)) ps)\<rparr>) s)
   \<and> (mtype m = ExistingParticipants \<and> data m = ParticipantsData ps
        \<and> list_all (\<lambda>p. has_peer s (Some p)) ps \<longrightarrow>
        handleSignalingMessage eng m s = s)"
proof -
  have skip: "create_for_existing (filter (\<lambda>p. \<not> has_peer s (Some p)) ps) s =
                create_for_existing ps s"
    by (rule create_for_existing_skip) simp
  have none: "list_all (\<lambda>p. has_peer s (Some p)) ps \<Longrightarrow>
                filter (\<lambda>p. \<not> has_peer s (Some p)) ps = []"
    by (simp add: list_all_iff)
  have 3: "mtype m = UserJoined \<and> has_peer s (joinedUserId m) \<longrightarrow>
             handleSignalingMessage eng m s = s"
    by (simp add: handleSignalingMessage_def Let_def handle_user_joined_dup)
  have 4: "mtype m = ExistingParticipants \<and> data m = ParticipantsData ps \<longrightarrow>
        handleSignalingMessage eng m s =
          handleSignalingMessage eng
            (m\<lparr>data := ParticipantsData (filter (\<lambda>p. \<not> has_peer s (Some p)) ps)\<rparr>) s"
    by (simp add: handleSignalingMessage_def Let_def handle_existing_participants_def skip)
  have 5: "mtype m = ExistingParticipants \<and> data m = ParticipantsData ps
        \<and> list_all (\<lambda>p. has_peer s (Some p)) ps \<longrightarrow>
        handleSignalingMessage eng m s = s"
    using 4 none
    by (auto simp add: handleSignalingMessage_def Let_def handle_existing_participants_def)
  show ?thesis
    using olp_handle oin_handle 3 4 5 by blast
qed

theorem one_link_per_identity_witness:
  "has_peer c1_after_join (Some ''c2'')
   \<and> one_link_per_peer c1_after_join
   \<and> handleSignalingMessage engine_ok user_joined_c2 c1_after_join = c1_after_join
   \<and> handleSignalingMessage engine_ok
        (from_server ExistingParticipants None None (ParticipantsData [''c2'', ''c2'']))
        c1_after_join = c1_after_join"
proof -
  have h: "has_peer c1_after_join (Some ''c2'')"
    by (simp add: c1_after_join_eval has_peer_def)
  have o: "one_link_per_peer client_c1"
    by (simp add: one_link_per_peer_def client_c1_facts)
  have j: "joinedUserId user_joined_c2 = Some ''c2''" "mtype user_joined_c2 = UserJoined"
    by (simp_all add: user_joined_c2_def from_server_def joinedUserId_def js_or_def truthy_def)
  have o': "one_link_per_peer c1_after_join"
    using one_link_per_identity[of client_c1 engine_ok user_joined_c2 "[]"] o
    by (simp add: c1_after_join_def)
  have d: "handleSignalingMessage engine_ok user_joined_c2 c1_after_join = c1_after_join"
    using one_link_per_identity[of c1_after_join engine_ok user_joined_c2 "[]"] h j by simp
  have e: "handleSignalingMessage engine_ok
        (from_server ExistingParticipants None None (ParticipantsData [''c2'', ''c2'']))
        c1_after_join = c1_after_join"
    using one_link_per_identity[of c1_after_join engine_ok
        "from_server ExistingParticipants None None (ParticipantsData [''c2'', ''c2''])"
        "[''c2'', ''c2'']", THEN conjunct2, THEN conjunct2, THEN conjunct2, THEN conjunct2] h
    by (simp add: from_server_def)
  show ?thesis using h o' d e by simp
qed

lemma offer_message_cong: "roomId a = roomId b \<Longrightarrow> offer_message a = offer_message b"
  by (simp add: offer_message_def sdp_message_def fun_eq_iff)

lemma negotiate_offer_frame:
  "wsOpen (negotiate_offer eng k s) = wsOpen s"
  "roomId (negotiate_offer eng k s) = roomId s"
  "myUserId (negotiate_offer eng k s) = myUserId s"
  by (simp_all add: negotiate_offer_def sendSignalingMessage_def update_pc_def log_effect_def
      wsOpen_def myUserId_def split: option.splits)

lemma negotiate_offer_effects:
  "wsOpen s \<Longrightarrow> createOffer eng k = Some sdp \<Longrightarrow> setLocalDescription eng k \<Longrightarrow>
     effects (negotiate_offer eng k s) = effects s @ [Send (offer_message s sdp)]"
  by (simp add: negotiate_offer_def sendSignalingMessage_def update_pc_def log_effect_def
      wsOpen_def offer_message_def sdp_message_def)

lemma offers_for_effects:
  "wsOpen s \<Longrightarrow> list_all (\<lambda>k. createOffer eng k \<noteq> None \<and> setLocalDescription eng k) ks \<Longrightarrow>
     effects (offers_for eng ks s) =
       effects s @ map (\<lambda>k. Send (offer_message s (the (createOffer eng k)))) ks"
proof (induction ks arbitrary: s)
  case Nil
  then show ?case by simp
next
  case (Cons k ks)
  obtain sdp where o: "createOffer eng k = Some sdp" and l: "setLocalDescription eng k"
    using Cons.prems(2) by auto
  let ?s1 = "negotiate_offer eng k s"
  have e1: "effects ?s1 = effects s @ [Send (offer_message s sdp)]"
    by (rule negotiate_offer_effects[OF Cons.prems(1) o l])
  have w1: "wsOpen ?s1" using Cons.prems(1) by (simp add: negotiate_offer_frame)
  have m1: "offer_message ?s1 = offer_message s"
    by (rule offer_message_cong) (simp add: negotiate_offer_frame)
  have "effects (offers_for eng ks ?s1) =
          effects ?s1 @ map (\<lambda>k. Send (offer_message ?s1 (the (createOffer eng k)))) ks"
    using Cons.prems(2) by (intro Cons.IH[OF w1]) simp
  then show ?case by (simp add: e1 m1 o)
qed

lemma createPeerConnection_frame:
  "roomId (createPeerConnection k s) = roomId s"
  "effects (createPeerConnection k s) = effects s @ [PcNew k]"
  by (simp_all add: createPeerConnection_def log_effect_def)

lemma cfe_frame:
  "wsOpen (snd (create_for_existing ps s)) = wsOpen s"
  "roomId (snd (create_for_existing ps s)) = roomId s"
  "effects (snd (create_for_existing ps s)) =
     effects s @ map PcNew (fst (create_for_existing ps s))"
  by (induction ps arbitrary: s)
     (simp_all add: create_for_existing_Cons createPeerConnection_frame
        del: create_for_existing.simps(2))

lemma cfe_all_new:
  "distinct ps \<Longrightarrow> list_all (\<lambda>p. Some p \<noteq> myUserId s \<and> \<not> has_peer s (Some p)) ps \<Longrightarrow>
     fst (create_for_existing ps s) = map Some ps"
proof (induction ps arbitrary: s)
  case Nil
  then show ?case by simp
next
  case (Cons p ps)
  have "list_all (\<lambda>q. Some q \<noteq> myUserId (createPeerConnection (Some p) s)
                      \<and> \<not> has_peer (createPeerConnection (Some p) s) (Some q)) ps"
    using Cons.prems by (auto simp add: list_all_iff)
  then have "fst (create_for_existing ps (createPeerConnection (Some p) s)) = map Some ps"
    using Cons.prems(1) by (intro Cons.IH) simp_all
  then show ?case
    using Cons.prems(2)
    by (simp add: create_for_existing_Cons del: create_for_existing.simps(2))
qed

lemma sends_PcNew: "sends (map PcNew ks) = []"
  by (induction ks) (simp_all add: sends_def)

lemma sent_create: "sent (createPeerConnection k s) = sent s"
  by (simp add: sent_def createPeerConnection_def log_effect_def)

lemma has_peer_update_pc: "has_peer (update_pc k f s) k' = has_peer s k'"
  by (auto simp add: has_peer_def update_pc_def map_of_map_entry split: option.splits)

lemma has_peer_send: "has_peer (sendSignalingMessage m s) k = has_peer s k"
  by (simp add: has_peer_def sendSignalingMessage_def log_effect_def)

lemma has_peer_negotiate: "has_peer (negotiate_offer eng k s) k' = has_peer s k'"
  by (simp add: negotiate_offer_def has_peer_send has_peer_update_pc split: option.splits)

lemma has_peer_offers_for: "has_peer (offers_for eng ks s) k = has_peer s k"
  by (induction ks arbitrary: s) (simp_all add: has_peer_negotiate)

lemma sent_negotiate:
  "sent (negotiate_offer eng k s) =
     sent s @ (if wsOpen s \<and> setLocalDescription eng k
               then (case createOffer eng k of
                       None \<Rightarrow> []
                     | Some sdp \<Rightarrow>
                         [\<lparr>mtype = Offer, room_id = Some (roomId s), sender_id = None,
                           user_id = None, data = SdpData sdp ''offer''\<rparr>])
               else [])"
  by (simp add: negotiate_offer_def sendSignalingMessage_def update_pc_def log_effect_def
      wsOpen_def sent_def offer_message_def sdp_message_def split: option.splits)

lemma sent_offers_for:
  "sent (offers_for eng ks s) =
     sent s @ concat (map (\<lambda>k. if wsOpen s \<and> setLocalDescription eng k
               then (case createOffer eng k of
                       None \<Rightarrow> []
                     | Some sdp \<Rightarrow>
                         [\<lparr>mtype = Offer, room_id = Some (roomId s), sender_id = None,
                           user_id = None, data = SdpData sdp ''offer''\<rparr>])
               else []) ks)"
proof (induction ks arbitrary: s)
  case Nil
  then show ?case by simp
next
  case (Cons k ks)
  have f: "wsOpen (negotiate_offer eng k s) = wsOpen s"
    "roomId (negotiate_offer eng k s) = roomId s"
    by (simp_all add: negotiate_offer_frame)
  show ?case
    by (simp only: offers_for.simps Cons.IH f sent_negotiate list.map concat.simps append_assoc)
qed

lemma set_cfe:
  "set (fst (create_for_existing ps s)) =
     {Some p |p. p \<in> set ps \<and> Some p \<noteq> myUserId s \<and> \<not> has_peer s (Some p)}"
proof (induction ps arbitrary: s)
  case Nil
  then show ?case by simp
next
  case (Cons p ps)
  show ?case
    by (auto simp add: create_for_existing_Cons Cons.IH simp del: create_for_existing.simps(2))
qed

lemma has_peer_cfe_new:
  "k \<in> set (fst (create_for_existing ps s)) \<Longrightarrow> has_peer (snd (create_for_existing ps s)) k"
proof (induction ps arbitrary: s)
  case Nil
  then show ?case by simp
next
  case (Cons p ps)
  show ?case
  proof (cases "Some p \<noteq> myUserId s \<and> \<not> has_peer s (Some p)")
    case True
    then have e: "create_for_existing (p # ps) s =
        (Some p # fst (create_for_existing ps (createPeerConnection (Some p) s)),
         snd (create_for_existing ps (createPeerConnection (Some p) s)))"
      by (simp add: create_for_existing_Cons del: create_for_existing.simps(2))
    show ?thesis
    proof (cases "k = Some p")
      case True
      then show ?thesis
        using has_peer_mono_cfe[of "createPeerConnection (Some p) s" k ps]
        by (simp add: e del: create_for_existing.simps(2))
    next
      case False
      then show ?thesis using Cons.prems Cons.IH
        by (simp add: e del: create_for_existing.simps(2))
    qed
  next
    case False
    then have e: "create_for_existing (p # ps) s = create_for_existing ps s"
      by auto
    show ?thesis using Cons.prems Cons.IH unfolding e by blast
  qed
qed

lemma sent_cfe: "sent (snd (create_for_existing ps s)) = sent s"
  by (simp add: sent_def cfe_frame(3) sends_PcNew)

lemma handle_existing_eq:
  "mtype m = ExistingParticipants \<Longrightarrow> data m = ParticipantsData ps \<Longrightarrow>
     handleSignalingMessage eng m s =
       offers_for eng (fst (create_for_existing ps s)) (snd (create_for_existing ps s))"
  by (simp add: handleSignalingMessage_def handle_existing_participants_def Let_def
      case_prod_beta)

lemma handle_user_joined_eq:
  "mtype m = UserJoined \<Longrightarrow> truthy (joinedUserId m) \<Longrightarrow> joinedUserId m \<noteq> myUserId s \<Longrightarrow>
   \<not> has_peer s (joinedUserId m) \<Longrightarrow>
     handleSignalingMessage eng m s =
       negotiate_offer eng (joinedUserId m) (createPeerConnection (joinedUserId m) s)"
  by (simp add: handleSignalingMessage_def handle_user_joined_def Let_def)

text \<open>
  C1, as the code has it. A client already in the room that receives \<open>user-joined\<close>
  for an identity that is non-empty, not its own and without a PeerLink constructs the
  connection, whatever the engine and the socket do; the \<open>offer\<close> goes out when the
  engine produces it and accepts it as local description and the socket is open. The
  joining client does the same for the identities of \<open>existing-participants\<close>,
  whatever the list: a connection is constructed, once, for exactly the listed
  identities that are not its own and have no PeerLink, and each of them gets its offer
  under the same conditions. Both sides initiate.
\<close>

theorem both_sides_offer:
  "(mtype m = UserJoined \<and> truthy (joinedUserId m) \<and> joinedUserId m \<noteq> myUserId s
      \<and> \<not> has_peer s (joinedUserId m) \<longrightarrow>
      created (handleSignalingMessage eng m s) = created s @ [joinedUserId m]
      \<and> has_peer (handleSignalingMessage eng m s) (joinedUserId m)
      \<and> sent (handleSignalingMessage eng m s) =
          sent s @ (if wsOpen s \<and> setLocalDescription eng (joinedUserId m)
                    then (case createOffer eng (joinedUserId m) of
                            None \<Rightarrow> []
                          | Some sdp \<Rightarrow>
                              [\<lparr>mtype = Offer, room_id = Some (roomId s), sender_id = None,
                                user_id = None, data = SdpData sdp ''offer''\<rparr>])
                    else []))
   \<and> (mtype m = ExistingParticipants \<and> data m = ParticipantsData ps \<longrightarrow>
      (\<exists>ks. distinct ks
         \<and> set ks = {Some p |p. p \<in> set ps \<and> Some p \<noteq> myUserId s \<and> \<not> has_peer s (Some p)}
         \<and> created (handleSignalingMessage eng m s) = created s @ ks
         \<and> list_all (has_peer (handleSignalingMessage eng m s)) ks
         \<and> sent (handleSignalingMessage eng m s) =
             sent s @ concat (map (\<lambda>k. if wsOpen s \<and> setLocalDescription eng k
                 then (case createOffer eng k of
                         None \<Rightarrow> []
                       | Some sdp \<Rightarrow>
                           [\<lparr>mtype = Offer, room_id = Some (roomId s), sender_id = None,
                             user_id = None, data = SdpData sdp ''offer''\<rparr>])
                 else []) ks)))"
proof (intro conjI impI)
  assume a: "mtype m = UserJoined \<and> truthy (joinedUserId m) \<and> joinedUserId m \<noteq> myUserId s
      \<and> \<not> has_peer s (joinedUserId m)"
  let ?k = "joinedUserId m"
  have h: "handleSignalingMessage eng m s = negotiate_offer eng ?k (createPeerConnection ?k s)"
    using a by (intro handle_user_joined_eq) simp_all
  show "created (handleSignalingMessage eng m s) = created s @ [?k]"
    by (simp add: h created_create)
  show "has_peer (handleSignalingMessage eng m s) ?k"
    by (simp add: h has_peer_negotiate)
  show "sent (handleSignalingMessage eng m s) =
          sent s @ (if wsOpen s \<and> setLocalDescription eng ?k
                    then (case createOffer eng ?k of
                            None \<Rightarrow> []
                          | Some sdp \<Rightarrow>
                              [\<lparr>mtype = Offer, room_id = Some (roomId s), sender_id = None,
                                user_id = None, data = SdpData sdp ''offer''\<rparr>])
                    else [])"
    by (simp only: h sent_negotiate sent_create wsOpen_create createPeerConnection_frame(1))
next
  assume a: "mtype m = ExistingParticipants \<and> data m = ParticipantsData ps"
  let ?ks = "fst (create_for_existing ps s)"
  let ?s1 = "snd (create_for_existing ps s)"
  have h: "handleSignalingMessage eng m s = offers_for eng ?ks ?s1"
    using a by (intro handle_existing_eq) simp_all
  have 1: "distinct ?ks" by (rule cfe_distinct)
  have 2: "set ?ks = {Some p |p. p \<in> set ps \<and> Some p \<noteq> myUserId s \<and> \<not> has_peer s (Some p)}"
    by (rule set_cfe)
  have 3: "created (handleSignalingMessage eng m s) = created s @ ?ks"
    by (simp add: h created_cfe)
  have 4: "list_all (has_peer (handleSignalingMessage eng m s)) ?ks"
    by (simp add: h list_all_iff has_peer_offers_for has_peer_cfe_new)
  have 5: "sent (handleSignalingMessage eng m s) =
             sent s @ concat (map (\<lambda>k. if wsOpen s \<and> setLocalDescription eng k
                 then (case createOffer eng k of
                         None \<Rightarrow> []
                       | Some sdp \<Rightarrow>
                           [\<lparr>mtype = Offer, room_id = Some (roomId s), sender_id = None,
                             user_id = None, data = SdpData sdp ''offer''\<rparr>])
                 else []) ?ks)"
    by (simp only: h sent_offers_for sent_cfe cfe_frame(1,2))
  show "\<exists>ks. distinct ks
         \<and> set ks = {Some p |p. p \<in> set ps \<and> Some p \<noteq> myUserId s \<and> \<not> has_peer s (Some p)}
         \<and> created (handleSignalingMessage eng m s) = created s @ ks
         \<and> list_all (has_peer (handleSignalingMessage eng m s)) ks
         \<and> sent (handleSignalingMessage eng m s) =
             sent s @ concat (map (\<lambda>k. if wsOpen s \<and> setLocalDescription eng k
                 then (case createOffer eng k of
                         None \<Rightarrow> []
                       | Some sdp \<Rightarrow>
                           [\<lparr>mtype = Offer, room_id = Some (roomId s), sender_id = None,
                             user_id = None, data = SdpData sdp ''offer''\<rparr>])
                 else []) ks)"
    using 1 2 3 4 5 by blast
qed


lemma distinct_set_singleton: "distinct ks \<Longrightarrow> set ks = {x} \<Longrightarrow> ks = [x]"
proof (cases ks)
  case Nil
  assume "set ks = {x}"
  then show ?thesis using Nil by simp
next
  case (Cons a as)
  assume d: "distinct ks" and s: "set ks = {x}"
  have "a = x" using s Cons by auto
  moreover have "as = []"
  proof (cases as)
    case Nil
    then show ?thesis .
  next
    case (Cons b bs)
    then have "b \<in> set ks" "b \<noteq> a" using d \<open>ks = a # as\<close> by auto
    then show ?thesis using s \<open>a = x\<close> by auto
  qed
  ultimately show ?thesis using Cons by simp
qed

theorem both_sides_offer_witness:
  "created (handleSignalingMessage engine_ok user_joined_c2 client_c1) =
     created client_c1 @ [Some ''c2'']
   \<and> sent (handleSignalingMessage engine_ok user_joined_c2 client_c1) =
     sent client_c1 @
       [\<lparr>mtype = Offer, room_id = Some ''room-1'', sender_id = None, user_id = None,
         data = SdpData ''v=0 offer'' ''offer''\<rparr>]
   \<and> created (handleSignalingMessage engine_refusing user_joined_c2 client_c1) =
     created client_c1 @ [Some ''c2'']
   \<and> sent (handleSignalingMessage engine_refusing user_joined_c2 client_c1) = sent client_c1
   \<and> created (handleSignalingMessage engine_ok
        (from_server ExistingParticipants None None
           (ParticipantsData [''c1'', ''c2'', ''c3'', ''c3''])) c1_after_join) =
     created c1_after_join @ [Some ''c3'']
   \<and> has_peer (handleSignalingMessage engine_ok
        (from_server ExistingParticipants None None
           (ParticipantsData [''c1'', ''c2'', ''c3'', ''c3''])) c1_after_join) (Some ''c3'')
   \<and> sent (handleSignalingMessage engine_ok
        (from_server ExistingParticipants None None
           (ParticipantsData [''c1'', ''c2'', ''c3'', ''c3''])) c1_after_join) =
     sent c1_after_join @
       [\<lparr>mtype = Offer, room_id = Some ''room-1'', sender_id = None, user_id = None,
         data = SdpData ''v=0 offer'' ''offer''\<rparr>]"
proof -
  have j: "joinedUserId user_joined_c2 = Some ''c2''" "mtype user_joined_c2 = UserJoined"
    by (simp_all add: user_joined_c2_def from_server_def joinedUserId_def js_or_def truthy_def)
  have n: "\<not> has_peer client_c1 k" for k
    by (simp add: has_peer_def client_c1_facts)
  have 1: "created (handleSignalingMessage engine_ok user_joined_c2 client_c1) =
             created client_c1 @ [Some ''c2'']
     \<and> sent (handleSignalingMessage engine_ok user_joined_c2 client_c1) =
     sent client_c1 @
       [\<lparr>mtype = Offer, room_id = Some ''room-1'', sender_id = None, user_id = None,
         data = SdpData ''v=0 offer'' ''offer''\<rparr>]"
    using both_sides_offer[where m = user_joined_c2 and s = client_c1 and eng = engine_ok,
        THEN conjunct1] j n client_c1_facts
    by (simp add: truthy_def engine_ok_def)
  have 2: "created (handleSignalingMessage engine_refusing user_joined_c2 client_c1) =
             created client_c1 @ [Some ''c2'']
     \<and> sent (handleSignalingMessage engine_refusing user_joined_c2 client_c1) = sent client_c1"
    using both_sides_offer[where m = user_joined_c2 and s = client_c1
        and eng = engine_refusing, THEN conjunct1] j n client_c1_facts
    by (simp add: truthy_def engine_refusing_def)
  let ?m = "from_server ExistingParticipants None None
              (ParticipantsData [''c1'', ''c2'', ''c3'', ''c3''])"
  let ?s' = "handleSignalingMessage engine_ok ?m c1_after_join"
  have f: "myUserId c1_after_join = Some ''c1''" "wsOpen c1_after_join"
    "roomId c1_after_join = ''room-1''"
    "has_peer c1_after_join k = (k = Some ''c2'')" for k
    unfolding c1_after_join_eval
    by (simp_all add: myUserId_def wsOpen_def has_peer_def client_c1_eval joined_client_eval)
  have q: "{Some p |p. p \<in> set [''c1'', ''c2'', ''c3'', ''c3''] \<and> Some p \<noteq> myUserId c1_after_join
             \<and> \<not> has_peer c1_after_join (Some p)} = {Some ''c3''}"
    by (auto simp add: f)
  obtain ks where ks: "distinct ks" "set ks = {Some ''c3''}"
    "created ?s' = created c1_after_join @ ks" "list_all (has_peer ?s') ks"
    "sent ?s' = sent c1_after_join @ concat (map (\<lambda>k. if wsOpen c1_after_join \<and> setLocalDescription engine_ok k
                 then (case createOffer engine_ok k of
                         None \<Rightarrow> []
                       | Some sdp \<Rightarrow>
                           [\<lparr>mtype = Offer, room_id = Some (roomId c1_after_join), sender_id = None,
                             user_id = None, data = SdpData sdp ''offer''\<rparr>])
                 else []) ks)"
    using both_sides_offer[where m = ?m and s = c1_after_join and eng = engine_ok
        and ps = "[''c1'', ''c2'', ''c3'', ''c3'']", THEN conjunct2]
    unfolding q by (auto simp add: from_server_def)
  have k: "ks = [Some ''c3'']"
    using ks(1,2) by (rule distinct_set_singleton)
  have 3: "created ?s' = created c1_after_join @ [Some ''c3'']"
    "has_peer ?s' (Some ''c3'')"
    "sent ?s' = sent c1_after_join @
       [\<lparr>mtype = Offer, room_id = Some ''room-1'', sender_id = None, user_id = None,
         data = SdpData ''v=0 offer'' ''offer''\<rparr>]"
    using ks(3,4,5) unfolding k by (simp_all add: f engine_ok_def)
  show ?thesis using 1 2 3 by simp
qed

text \<open>
  C1 as stated fails: \<open>c1\<close> is in the room, has no PeerLink, and receives
  \<open>user-joined\<close> for \<open>c2\<close>; it sends an offer.
\<close>

theorem present_client_offers:
  "myUserId client_c1 = Some ''c1''
   \<and> mtype user_joined_c2 = UserJoined
   \<and> joinedUserId user_joined_c2 = Some ''c2''
   \<and> sent (handleSignalingMessage engine_ok user_joined_c2 client_c1) =
       sent client_c1 @
         [\<lparr>mtype = Offer, room_id = Some ''room-1'', sender_id = None, user_id = None,
           data = SdpData ''v=0 offer'' ''offer''\<rparr>]"
proof -
  have j: "joinedUserId user_joined_c2 = Some ''c2''" "mtype user_joined_c2 = UserJoined"
    by (simp_all add: user_joined_c2_def from_server_def joinedUserId_def js_or_def truthy_def)
  have "sent c1_after_join =
          sent client_c1 @
            [\<lparr>mtype = Offer, room_id = Some ''room-1'', sender_id = None, user_id = None,
              data = SdpData ''v=0 offer'' ''offer''\<rparr>]"
    by (simp add: sent_def c1_after_join_eval)
  then show ?thesis
    using j client_c1_facts by (simp add: c1_after_join_def)
qed

lemma handle_not_from_self:
  "\<not> from_self m s \<Longrightarrow> mtype m = Offer \<Longrightarrow> handleSignalingMessage eng m s = handle_offer eng m s"
  "\<not> from_self m s \<Longrightarrow> mtype m = IceCandidate \<Longrightarrow>
     handleSignalingMessage eng m s = handle_ice_candidate eng m s"
  by (auto simp add: handleSignalingMessage_def from_self_def Let_def)

lemma handle_from_self:
  "from_self m s \<Longrightarrow> mtype m \<notin> {UserJoined, ExistingParticipants, Connected} \<Longrightarrow>
     handleSignalingMessage eng m s = s"
  by (auto simp add: handleSignalingMessage_def from_self_def Let_def)

lemma handle_ice_candidate_cases:
  "\<not> has_peer s (sender_id m) \<Longrightarrow> handle_ice_candidate eng m s = s"
  "\<not> addIceCandidate eng (sender_id m) \<Longrightarrow> handle_ice_candidate eng m s = s"
  "has_peer s (sender_id m) \<Longrightarrow> data m = IceData c \<Longrightarrow> addIceCandidate eng (sender_id m) \<Longrightarrow>
     handle_ice_candidate eng m s =
       update_pc (sender_id m) (\<lambda>p. p\<lparr>iceCandidates := iceCandidates p @ [c]\<rparr>) s"
  by (simp_all add: handle_ice_candidate_def Let_def split: payload.splits)

text \<open>
  C2, as the code has it. There is no queue of candidates. An \<open>ice-candidate\<close> whose
  sender has no PeerLink leaves the state as it was: the candidate is dropped. One whose
  sender (not the client itself) has a PeerLink goes to \<open>addIceCandidate\<close> at once,
  whatever the remote description; it is recorded when the engine accepts it, and the
  state stays as it was when the engine rejects it.
\<close>

theorem ice_candidate_immediate:
  "(mtype m = IceCandidate \<and> \<not> has_peer s (sender_id m) \<longrightarrow>
      handleSignalingMessage eng m s = s)
   \<and> (mtype m = IceCandidate \<and> has_peer s (sender_id m) \<and> \<not> from_self m s
       \<and> data m = IceData c \<and> addIceCandidate eng (sender_id m) \<longrightarrow>
      handleSignalingMessage eng m s =
        update_pc (sender_id m) (\<lambda>p. p\<lparr>iceCandidates := iceCandidates p @ [c]\<rparr>) s)
   \<and> (mtype m = IceCandidate \<and> \<not> addIceCandidate eng (sender_id m) \<longrightarrow>
      handleSignalingMessage eng m s = s)"
proof (cases "from_self m s")
  case True
  then show ?thesis by (auto simp add: handle_from_self)
next
  case False
  then show ?thesis
    by (auto simp add: handle_not_from_self handle_ice_candidate_cases)
qed

lemma handle_offer_creates:
  "\<not> has_peer s (sender_id m) \<Longrightarrow>
     has_peer (handle_offer eng m s) (sender_id m) \<and>
     created (handle_offer eng m s) = created s @ [sender_id m]"
  by (simp add: handle_offer_def Let_def has_peer_def update_pc_def map_of_map_entry
      createPeerConnection_def log_effect_def sendSignalingMessage_def update_conv' created_def
      split: payload.splits option.splits)

lemma answer_message_cong: "roomId a = roomId b \<Longrightarrow> answer_message a = answer_message b"
  by (simp add: answer_message_def sdp_message_def fun_eq_iff)

lemma handle_offer_accepted:
  "\<not> has_peer s (sender_id m) \<Longrightarrow> data m = SdpData sdp ty \<Longrightarrow>
   setRemoteDescription eng (sender_id m) \<Longrightarrow> createAnswer eng (sender_id m) = Some asdp \<Longrightarrow>
   setLocalDescription eng (sender_id m) \<Longrightarrow>
     handle_offer eng m s =
        sendSignalingMessage (answer_message s asdp)
          (update_pc (sender_id m) (\<lambda>p. p\<lparr>localDescription := Some (''answer'', asdp)\<rparr>)
            (update_pc (sender_id m) (\<lambda>p. p\<lparr>remoteDescription := Some (ty, sdp)\<rparr>)
              (createPeerConnection (sender_id m) s)))"
proof -
  assume a: "\<not> has_peer s (sender_id m)" "data m = SdpData sdp ty"
   "setRemoteDescription eng (sender_id m)" "createAnswer eng (sender_id m) = Some asdp"
   "setLocalDescription eng (sender_id m)"
  have "answer_message (update_pc (sender_id m) (\<lambda>p. p\<lparr>remoteDescription := Some (ty, sdp)\<rparr>)
              (createPeerConnection (sender_id m) s)) = answer_message s"
    by (rule answer_message_cong) (simp add: update_pc_def createPeerConnection_frame)
  then show ?thesis
    using a by (simp add: handle_offer_def Let_def)
qed

lemma handle_answer_discard:
  "mtype m = Answer \<Longrightarrow> \<not> has_peer s (sender_id m) \<Longrightarrow> handleSignalingMessage eng m s = s"
  by (simp add: handleSignalingMessage_def Let_def handle_answer_def)

lemma handle_offer_new_link:
  assumes "\<not> has_peer s (sender_id m)"
  shows "created (handle_offer eng m s) = created s @ [sender_id m]"
    and "has_peer (handle_offer eng m s) (sender_id m)"
    and "map_option senders (peer_of (handle_offer eng m s) (sender_id m)) =
           Some (case localStream s of None \<Rightarrow> [] | Some ls \<Rightarrow> map Some ls)"
  using assms
  by (simp_all add: handle_offer_def Let_def has_peer_def peer_of_def update_pc_def
      map_of_map_entry createPeerConnection_def log_effect_def sendSignalingMessage_def
      update_conv' created_def new_pc_def split: payload.splits option.splits)

lemma handle_offer_observed:
  assumes "\<not> has_peer s (sender_id m)" "data m = SdpData sdp ty"
  shows "effects (handle_offer eng m s) =
           effects s @ PcNew (sender_id m) #
             map Send
               (if wsOpen s \<and> setRemoteDescription eng (sender_id m)
                   \<and> setLocalDescription eng (sender_id m)
                then (case createAnswer eng (sender_id m) of
                        None \<Rightarrow> []
                      | Some asdp \<Rightarrow>
                          [\<lparr>mtype = Answer, room_id = Some (roomId s), sender_id = None,
                            user_id = None, data = SdpData asdp ''answer''\<rparr>])
                else [])"
    and "map_option remoteDescription (peer_of (handle_offer eng m s) (sender_id m)) =
           Some (if setRemoteDescription eng (sender_id m) then Some (ty, sdp) else None)"
    and "map_option localDescription (peer_of (handle_offer eng m s) (sender_id m)) =
           Some (if setRemoteDescription eng (sender_id m) \<and> setLocalDescription eng (sender_id m)
                 then (case createAnswer eng (sender_id m) of
                         None \<Rightarrow> None
                       | Some asdp \<Rightarrow> Some (''answer'', asdp))
                 else None)"
  using assms
  by (simp_all add: handle_offer_def Let_def has_peer_def peer_of_def update_pc_def
      map_of_map_entry createPeerConnection_def log_effect_def sendSignalingMessage_def
      update_conv' new_pc_def wsOpen_def answer_message_def sdp_message_def
      split: option.splits)

text \<open>
  C10, as the code has it. An \<open>offer\<close> that is not the client's own and whose sender
  has no PeerLink makes the handler construct the connection, with the tracks of the
  local stream, before anything else. The remote description is set on it when the
  engine accepts it; the answer becomes its local description when the engine also
  produces and accepts the answer; and the \<open>answer\<close> message goes out, after the
  construction, exactly when all of that succeeds and the socket is open. An \<open>answer\<close>
  whose sender has no PeerLink leaves the whole state as it was.
\<close>

theorem offer_answer_asymmetry:
  "(mtype m = Offer \<and> \<not> from_self m s \<and> \<not> has_peer s (sender_id m) \<longrightarrow>
      created (handleSignalingMessage eng m s) = created s @ [sender_id m]
      \<and> has_peer (handleSignalingMessage eng m s) (sender_id m)
      \<and> map_option senders (peer_of (handleSignalingMessage eng m s) (sender_id m)) =
           Some (case localStream s of None \<Rightarrow> [] | Some ls \<Rightarrow> map Some ls))
   \<and> (mtype m = Offer \<and> \<not> from_self m s \<and> \<not> has_peer s (sender_id m)
       \<and> data m = SdpData sdp ty \<longrightarrow>
      effects (handleSignalingMessage eng m s) =
        effects s @ PcNew (sender_id m) #
          map Send
            (if wsOpen s \<and> setRemoteDescription eng (sender_id m)
                \<and> setLocalDescription eng (sender_id m)
             then (case createAnswer eng (sender_id m) of
                     None \<Rightarrow> []
                   | Some asdp \<Rightarrow>
                       [\<lparr>mtype = Answer, room_id = Some (roomId s), sender_id = None,
                         user_id = None, data = SdpData asdp ''answer''\<rparr>])
             else [])
      \<and> map_option remoteDescription
           (peer_of (handleSignalingMessage eng m s) (sender_id m)) =
          Some (if setRemoteDescription eng (sender_id m) then Some (ty, sdp) else None)
      \<and> map_option localDescription
           (peer_of (handleSignalingMessage eng m s) (sender_id m)) =
          Some (if setRemoteDescription eng (sender_id m)
                   \<and> setLocalDescription eng (sender_id m)
                then (case createAnswer eng (sender_id m) of
                        None \<Rightarrow> None
                      | Some asdp \<Rightarrow> Some (''answer'', asdp))
                else None))
   \<and> (mtype m = Answer \<and> \<not> has_peer s (sender_id m) \<longrightarrow>
      handleSignalingMessage eng m s = s)"
proof (intro conjI impI)
  assume a: "mtype m = Offer \<and> \<not> from_self m s \<and> \<not> has_peer s (sender_id m)"
  then have h: "handleSignalingMessage eng m s = handle_offer eng m s"
    by (simp add: handle_not_from_self(1))
  show "created (handleSignalingMessage eng m s) = created s @ [sender_id m]"
    "has_peer (handleSignalingMessage eng m s) (sender_id m)"
    "map_option senders (peer_of (handleSignalingMessage eng m s) (sender_id m)) =
           Some (case localStream s of None \<Rightarrow> [] | Some ls \<Rightarrow> map Some ls)"
    unfolding h using a handle_offer_new_link[of s m eng] by simp_all
next
  assume a: "mtype m = Offer \<and> \<not> from_self m s \<and> \<not> has_peer s (sender_id m)
       \<and> data m = SdpData sdp ty"
  then have h: "handleSignalingMessage eng m s = handle_offer eng m s"
    by (simp add: handle_not_from_self(1))
  have n: "\<not> has_peer s (sender_id m)" and d: "data m = SdpData sdp ty"
    using a by simp_all
  show "effects (handleSignalingMessage eng m s) =
        effects s @ PcNew (sender_id m) #
          map Send
            (if wsOpen s \<and> setRemoteDescription eng (sender_id m)
                \<and> setLocalDescription eng (sender_id m)
             then (case createAnswer eng (sender_id m) of
                     None \<Rightarrow> []
                   | Some asdp \<Rightarrow>
                       [\<lparr>mtype = Answer, room_id = Some (roomId s), sender_id = None,
                         user_id = None, data = SdpData asdp ''answer''\<rparr>])
             else [])"
    unfolding h by (rule handle_offer_observed(1)[OF n d])
  show "map_option remoteDescription
           (peer_of (handleSignalingMessage eng m s) (sender_id m)) =
          Some (if setRemoteDescription eng (sender_id m) then Some (ty, sdp) else None)"
    unfolding h by (rule handle_offer_observed(2)[OF n d])
  show "map_option localDescription
           (peer_of (handleSignalingMessage eng m s) (sender_id m)) =
          Some (if setRemoteDescription eng (sender_id m)
                   \<and> setLocalDescription eng (sender_id m)
                then (case createAnswer eng (sender_id m) of
                        None \<Rightarrow> None
                      | Some asdp \<Rightarrow> Some (''answer'', asdp))
                else None)"
    unfolding h by (rule handle_offer_observed(3)[OF n d])
next
  assume "mtype m = Answer \<and> \<not> has_peer s (sender_id m)"
  then show "handleSignalingMessage eng m s = s"
    by (simp add: handle_answer_discard)
qed

lemma scenario_messages:
  "mtype ice_from_c2 = IceCandidate" "sender_id ice_from_c2 = Some ''c2''"
  "data ice_from_c2 = IceData a_candidate" "user_id ice_from_c2 = None"
  "mtype offer_from_c2 = Offer" "sender_id offer_from_c2 = Some ''c2''"
  "data offer_from_c2 = SdpData ''v=0 remote'' ''offer''" "user_id offer_from_c2 = None"
  "mtype offer_from_c1 = Offer" "sender_id offer_from_c1 = Some ''c1''"
  "user_id offer_from_c1 = None"
  "mtype answer_from_c2 = Answer" "sender_id answer_from_c2 = Some ''c2''"
  by (simp_all add: ice_from_c2_def offer_from_c2_def offer_from_c1_def answer_from_c2_def
      from_server_def)

lemma c1_not_from_c2:
  "\<not> from_self ice_from_c2 client_c1" "\<not> from_self offer_from_c2 client_c1"
  "\<not> from_self ice_from_c2 c1_after_join" "from_self offer_from_c1 client_c1"
  by (simp_all add: from_self_def scenario_messages js_or_def truthy_def client_c1_facts
      c1_after_join_eval myUserId_def client_c1_eval joined_client_eval)

lemma c1_answers_c2:
  "handleSignalingMessage engine_ok offer_from_c2 client_c1 =
     client_c1\<lparr>peers := [(Some ''c2'', \<lparr>senders = [], localDescription = Some (''answer'', ''v=0 answer''),
                                    remoteDescription = Some (''offer'', ''v=0 remote''),
                                    iceCandidates = []\<rparr>)],
               effects := effects client_c1 @
                  [PcNew (Some ''c2''),
                   Send \<lparr>mtype = Answer, room_id = Some ''room-1'', sender_id = None,
                         user_id = None, data = SdpData ''v=0 answer'' ''answer''\<rparr>]\<rparr>"
proof -
  have "handleSignalingMessage engine_ok offer_from_c2 client_c1 =
          handle_offer engine_ok offer_from_c2 client_c1"
    by (simp add: handle_not_from_self c1_not_from_c2 scenario_messages)
  then show ?thesis
    by (simp add: scenario_messages handle_offer_def Let_def
      has_peer_def client_c1_facts engine_ok_def createPeerConnection_def log_effect_def
      new_pc_def update_pc_def sendSignalingMessage_def wsOpen_def answer_message_def
      sdp_message_def client_c1_eval joined_client_eval)
qed

text \<open>
  C2 as stated fails. A candidate from \<open>c2\<close> reaches \<open>c1\<close> before \<open>c1\<close> has a
  PeerLink for \<open>c2\<close>: the state does not change, and once the offer of \<open>c2\<close> has
  set the remote description the PeerLink holds no candidate. And when \<open>c1\<close> has a
  PeerLink for \<open>c2\<close> whose remote description is not set, the candidate is applied
  at once.
\<close>

theorem early_candidate_lost:
  "\<not> has_peer client_c1 (Some ''c2'')
   \<and> handleSignalingMessage engine_ok ice_from_c2 client_c1 = client_c1
   \<and> map_option remoteDescription
        (peer_of (handleSignalingMessage engine_ok offer_from_c2
                   (handleSignalingMessage engine_ok ice_from_c2 client_c1)) (Some ''c2'')) =
       Some (Some (''offer'', ''v=0 remote''))
   \<and> map_option iceCandidates
        (peer_of (handleSignalingMessage engine_ok offer_from_c2
                   (handleSignalingMessage engine_ok ice_from_c2 client_c1)) (Some ''c2'')) =
       Some []
   \<and> map_option remoteDescription (peer_of c1_after_join (Some ''c2'')) = Some None
   \<and> map_option iceCandidates
        (peer_of (handleSignalingMessage engine_ok ice_from_c2 c1_after_join) (Some ''c2'')) =
       Some [a_candidate]"
proof -
  have n: "\<not> has_peer client_c1 (Some ''c2'')"
    by (simp add: has_peer_def client_c1_facts)
  have d: "handleSignalingMessage engine_ok ice_from_c2 client_c1 = client_c1"
    using n by (simp add: handle_not_from_self c1_not_from_c2 scenario_messages
        handle_ice_candidate_cases)
  have h: "has_peer c1_after_join (Some ''c2'')"
    by (simp add: c1_after_join_eval has_peer_def)
  have i: "handleSignalingMessage engine_ok ice_from_c2 c1_after_join =
             update_pc (Some ''c2'') (\<lambda>p. p\<lparr>iceCandidates := iceCandidates p @ [a_candidate]\<rparr>)
               c1_after_join"
    using h by (simp add: handle_not_from_self c1_not_from_c2 scenario_messages
        handle_ice_candidate_cases engine_ok_def)
  show ?thesis
    unfolding d i using n
    by (simp add: c1_answers_c2 peer_of_def c1_after_join_eval update_pc_def)
qed

theorem ice_candidate_immediate_witness:
  "handleSignalingMessage engine_ok ice_from_c2 client_c1 = client_c1
   \<and> handleSignalingMessage engine_ok ice_from_c2 c1_after_join =
       update_pc (Some ''c2'') (\<lambda>p. p\<lparr>iceCandidates := iceCandidates p @ [a_candidate]\<rparr>)
         c1_after_join"
proof -
  have n: "\<not> has_peer client_c1 (Some ''c2'')"
    by (simp add: has_peer_def client_c1_facts)
  have h: "has_peer c1_after_join (Some ''c2'')"
    by (simp add: c1_after_join_eval has_peer_def)
  have 1: "handleSignalingMessage engine_ok ice_from_c2 client_c1 = client_c1"
    using ice_candidate_immediate[where m = ice_from_c2 and s = client_c1 and eng = engine_ok,
        THEN conjunct1] n
    by (simp add: scenario_messages)
  have 2: "handleSignalingMessage engine_ok ice_from_c2 c1_after_join =
       update_pc (Some ''c2'') (\<lambda>p. p\<lparr>iceCandidates := iceCandidates p @ [a_candidate]\<rparr>)
         c1_after_join"
    using ice_candidate_immediate[where m = ice_from_c2 and s = c1_after_join
        and eng = engine_ok and c = a_candidate, THEN conjunct2, THEN conjunct1] h
    by (simp add: scenario_messages c1_not_from_c2 engine_ok_def)
  show ?thesis using 1 2 by simp
qed

lemma sends_Send: "sends (map Send ms) = ms"
  by (induction ms) (simp_all add: sends_def)

text \<open>
  C10 as stated fails for an \<open>offer\<close> that carries the client's own identity: its
  sender has no PeerLink, and the handler ignores the message. And an offer of \<open>c2\<close>
  gets its PeerLink but no answer when the engine refuses the description, or when the
  socket is not open.
\<close>

theorem offer_ignored_or_unanswered:
  "myUserId client_c1 = Some ''c1''
   \<and> mtype offer_from_c1 = Offer
   \<and> sender_id offer_from_c1 = Some ''c1''
   \<and> \<not> has_peer client_c1 (Some ''c1'')
   \<and> handleSignalingMessage engine_ok offer_from_c1 client_c1 = client_c1
   \<and> has_peer (handleSignalingMessage engine_refusing offer_from_c2 client_c1) (Some ''c2'')
   \<and> sent (handleSignalingMessage engine_refusing offer_from_c2 client_c1) = sent client_c1
   \<and> \<not> wsOpen (socket_becomes CLOSED client_c1)
   \<and> has_peer (handleSignalingMessage engine_ok offer_from_c2
                  (socket_becomes CLOSED client_c1)) (Some ''c2'')
   \<and> sent (handleSignalingMessage engine_ok offer_from_c2 (socket_becomes CLOSED client_c1)) =
       sent (socket_becomes CLOSED client_c1)"
proof -
  let ?closed = "socket_becomes CLOSED client_c1"
  have own: "handleSignalingMessage engine_ok offer_from_c1 client_c1 = client_c1"
    using c1_not_from_c2(4) by (simp add: scenario_messages handle_from_self)
  have n: "\<not> has_peer client_c1 k" "\<not> has_peer ?closed k" for k
    by (simp_all add: has_peer_def socket_becomes_def client_c1_facts)
  have nf: "\<not> from_self offer_from_c2 ?closed"
    by (simp add: from_self_def scenario_messages js_or_def truthy_def myUserId_def
        socket_becomes_def client_c1_eval joined_client_eval)
  have w: "\<not> wsOpen ?closed"
    by (simp add: wsOpen_def socket_becomes_def client_c1_eval joined_client_eval)
  have r: "handleSignalingMessage engine_refusing offer_from_c2 client_c1 =
             handle_offer engine_refusing offer_from_c2 client_c1"
    by (simp add: handle_not_from_self c1_not_from_c2 scenario_messages)
  have c: "handleSignalingMessage engine_ok offer_from_c2 ?closed =
             handle_offer engine_ok offer_from_c2 ?closed"
    by (simp add: handle_not_from_self nf scenario_messages)
  have 1: "has_peer (handleSignalingMessage engine_refusing offer_from_c2 client_c1) (Some ''c2'')"
    unfolding r using handle_offer_new_link(2)[of client_c1 offer_from_c2 engine_refusing] n
    by (simp add: scenario_messages)
  have 2: "sent (handleSignalingMessage engine_refusing offer_from_c2 client_c1) = sent client_c1"
    unfolding r sent_def
    using handle_offer_observed(1)[of client_c1 offer_from_c2 "''v=0 remote''" "''offer''"
        engine_refusing] n
    by (simp add: scenario_messages engine_refusing_def)
  have 3: "has_peer (handleSignalingMessage engine_ok offer_from_c2 ?closed) (Some ''c2'')"
    unfolding c using handle_offer_new_link(2)[of ?closed offer_from_c2 engine_ok] n
    by (simp add: scenario_messages)
  have 4: "sent (handleSignalingMessage engine_ok offer_from_c2 ?closed) = sent ?closed"
    unfolding c sent_def
    using handle_offer_observed(1)[of ?closed offer_from_c2 "''v=0 remote''" "''offer''"
        engine_ok] n w
    by (simp add: scenario_messages)
  show ?thesis
    using own 1 2 3 4 w n(1) by (simp add: client_c1_facts scenario_messages)
qed

theorem offer_answer_asymmetry_witness:
  "created (handleSignalingMessage engine_ok offer_from_c2 client_c1) =
     created client_c1 @ [Some ''c2'']
   \<and> effects (handleSignalingMessage engine_ok offer_from_c2 client_c1) =
     effects client_c1 @
       [PcNew (Some ''c2''),
        Send \<lparr>mtype = Answer, room_id = Some ''room-1'', sender_id = None, user_id = None,
              data = SdpData ''v=0 answer'' ''answer''\<rparr>]
   \<and> map_option remoteDescription
        (peer_of (handleSignalingMessage engine_ok offer_from_c2 client_c1) (Some ''c2'')) =
     Some (Some (''offer'', ''v=0 remote''))
   \<and> map_option localDescription
        (peer_of (handleSignalingMessage engine_ok offer_from_c2 client_c1) (Some ''c2'')) =
     Some (Some (''answer'', ''v=0 answer''))
   \<and> handleSignalingMessage engine_ok answer_from_c2 client_c1 = client_c1"
proof -
  have n: "\<not> has_peer client_c1 (Some ''c2'')"
    by (simp add: has_peer_def client_c1_facts)
  note t = offer_answer_asymmetry[where s = client_c1 and eng = engine_ok]
  have 1: "created (handleSignalingMessage engine_ok offer_from_c2 client_c1) =
     created client_c1 @ [Some ''c2'']"
    using t[where m = offer_from_c2, THEN conjunct1] n
    by (simp add: scenario_messages c1_not_from_c2)
  have 2: "effects (handleSignalingMessage engine_ok offer_from_c2 client_c1) =
     effects client_c1 @
       [PcNew (Some ''c2''),
        Send \<lparr>mtype = Answer, room_id = Some ''room-1'', sender_id = None, user_id = None,
              data = SdpData ''v=0 answer'' ''answer''\<rparr>]
   \<and> map_option remoteDescription
        (peer_of (handleSignalingMessage engine_ok offer_from_c2 client_c1) (Some ''c2'')) =
     Some (Some (''offer'', ''v=0 remote''))
   \<and> map_option localDescription
        (peer_of (handleSignalingMessage engine_ok offer_from_c2 client_c1) (Some ''c2'')) =
     Some (Some (''answer'', ''v=0 answer''))"
    using t[where m = offer_from_c2 and sdp = "''v=0 remote''" and ty = "''offer''",
        THEN conjunct2, THEN conjunct1] n
    by (simp add: scenario_messages c1_not_from_c2 engine_ok_def client_c1_facts)
  have 3: "handleSignalingMessage engine_ok answer_from_c2 client_c1 = client_c1"
    using t[where m = answer_from_c2, THEN conjunct2, THEN conjunct2] n
    by (simp add: scenario_messages)
  show ?thesis using 1 2 3 by simp
qed







section \<open>Properties of initialisation and of the room lookup\<close>


lemma get_exists_not_null: "d \<noteq> JNull \<Longrightarrow> \<exists>v. get_exists d = Inr v"
  by (cases d) simp_all

text \<open>
  C9, as the code has it. A 404 gives \<open>false\<close>. A 2xx response whose body parses to a
  value other than \<open>null\<close> gives the \<open>exists\<close> member when it is truthy and
  \<open>false\<close> otherwise, so \<open>true\<close> is returned only for a truthy \<open>exists\<close>. The
  function throws exactly when \<open>fetch\<close> rejects, when the response is neither 404
  nor OK, and when a 2xx body does not parse as JSON or parses to \<open>null\<close>.
\<close>

theorem checkRoomExists_outcomes:
  "(fetch (b @ ''/rooms/'' @ rid) = Inr r \<and> status r = 404 \<longrightarrow>
      checkRoomExists b fetch rid = Inr (Val (JBool False)))
   \<and> (fetch (b @ ''/rooms/'' @ rid) = Inr r \<and> ok r \<and> json_body r = Some d \<and> d \<noteq> JNull \<longrightarrow>
      checkRoomExists b fetch rid =
        Inr (if jsval_truthy (exists_of d) then exists_of d else Val (JBool False)))
   \<and> (checkRoomExists b fetch rid = Inr (Val (JBool True)) \<longrightarrow>
        (\<exists>r d. fetch (b @ ''/rooms/'' @ rid) = Inr r \<and> ok r \<and> json_body r = Some d
               \<and> jsval_truthy (exists_of d)))
   \<and> (isl (checkRoomExists b fetch rid) =
        (case fetch (b @ ''/rooms/'' @ rid) of
           Inl e \<Rightarrow> True
         | Inr r \<Rightarrow> status r \<noteq> 404 \<and>
                    (\<not> ok r \<or> json_body r = None \<or> json_body r = Some JNull)))"
proof -
  let ?f = "fetch (b @ ''/rooms/'' @ rid)"
  have nn: "d \<noteq> JNull \<Longrightarrow> get_exists d = Inr (exists_of d)" for d
    by (cases d) (simp_all add: exists_of_def)
  have tt: "ename type_error = ''TypeError''" "\<not> str_includes (emessage type_error) ''fetch''"
    by (simp_all add: type_error_def)
  have no404: "ok r \<Longrightarrow> status r \<noteq> 404" for r :: response
    by (auto simp add: ok_def)
  have 1: "?f = Inr r \<and> status r = 404 \<longrightarrow>
      checkRoomExists b fetch rid = Inr (Val (JBool False))"
    by (simp add: checkRoomExists_def checkRoomExists_try_def)
  have 2: "?f = Inr r \<and> ok r \<and> json_body r = Some d \<and> d \<noteq> JNull \<longrightarrow>
      checkRoomExists b fetch rid =
        Inr (if jsval_truthy (exists_of d) then exists_of d else Val (JBool False))"
    using no404[of r] by (auto simp add: checkRoomExists_def checkRoomExists_try_def nn)
  have 4: "isl (checkRoomExists b fetch rid) =
        (case ?f of
           Inl e \<Rightarrow> True
         | Inr r \<Rightarrow> status r \<noteq> 404 \<and>
                    (\<not> ok r \<or> json_body r = None \<or> json_body r = Some JNull))"
  proof (cases ?f)
    case (Inl e)
    then show ?thesis by (simp add: checkRoomExists_def checkRoomExists_try_def)
  next
    case (Inr r')
    show ?thesis
    proof (cases "json_body r'")
      case None
      then show ?thesis
        using Inr no404[of r'] by (simp add: checkRoomExists_def checkRoomExists_try_def)
    next
      case (Some d')
      show ?thesis
      proof (cases "d' = JNull")
        case True
        then show ?thesis
          using Inr Some no404[of r'] tt
          by (simp add: checkRoomExists_def checkRoomExists_try_def)
      next
        case False
        then show ?thesis
          using Inr Some no404[of r'] nn[OF False]
          by (simp add: checkRoomExists_def checkRoomExists_try_def)
      qed
    qed
  qed
  have 3: "checkRoomExists b fetch rid = Inr (Val (JBool True)) \<longrightarrow>
        (\<exists>r d. ?f = Inr r \<and> ok r \<and> json_body r = Some d \<and> jsval_truthy (exists_of d))"
  proof
    assume t: "checkRoomExists b fetch rid = Inr (Val (JBool True))"
    then have ni: "\<not> isl (checkRoomExists b fetch rid)" by simp
    then obtain r' where f: "?f = Inr r'"
      using 4 by (cases ?f) simp_all
    have n404: "status r' \<noteq> 404"
      using t f by (auto simp add: checkRoomExists_def checkRoomExists_try_def)
    then have okr: "ok r'" and jb: "json_body r' \<noteq> None" "json_body r' \<noteq> Some JNull"
      using ni 4 f by simp_all
    then obtain d' where d: "json_body r' = Some d'" "d' \<noteq> JNull" by auto
    have "checkRoomExists b fetch rid =
            Inr (if jsval_truthy (exists_of d') then exists_of d' else Val (JBool False))"
      using f okr d n404 by (simp add: checkRoomExists_def checkRoomExists_try_def nn)
    then have "jsval_truthy (exists_of d')"
      using t by (auto split: if_splits)
    then show "\<exists>r d. ?f = Inr r \<and> ok r \<and> json_body r = Some d \<and> jsval_truthy (exists_of d)"
      using f okr d by blast
  qed
  show ?thesis using 1 2 3 4 by blast
qed



text \<open>
  C9 as stated fails: a 200 response whose JSON body is \<open>null\<close> lacks a truthy
  \<open>exists\<close>, and the lookup throws the \<open>TypeError\<close> of reading a property of
  \<open>null\<close>; a 200 response whose body is not JSON throws as well.
\<close>

theorem null_body_throws:
  "ok null_body_200
   \<and> json_body null_body_200 = Some JNull
   \<and> checkRoomExists local_backend (fetch_answers (Inr null_body_200)) ''room-1'' =
       Inl type_error
   \<and> ok no_json_200
   \<and> checkRoomExists local_backend (fetch_answers (Inr no_json_200)) ''room-1'' =
       Inl syntax_error"
  by (simp add: null_body_200_def no_json_200_def ok_def checkRoomExists_def
      checkRoomExists_try_def fetch_answers_def type_error_def syntax_error_def)

theorem checkRoomExists_outcomes_witness:
  "checkRoomExists local_backend (fetch_answers (Inr not_found_404)) ''room-1'' =
     Inr (Val (JBool False))
   \<and> checkRoomExists local_backend (fetch_answers (Inr exists_body_200)) ''room-1'' =
     Inr (Val (JBool True))"
proof -
  have e: "exists_of (JObj [(''room_id'', JStr ''room-1''), (''exists'', JBool True)]) =
             Val (JBool True)"
    by (simp add: exists_of_def)
  have 1: "checkRoomExists local_backend (fetch_answers (Inr not_found_404)) ''room-1'' =
     Inr (Val (JBool False))"
    using checkRoomExists_outcomes[where fetch = "fetch_answers (Inr not_found_404)"
        and b = local_backend and rid = "''room-1''" and r = not_found_404, THEN conjunct1]
    by (simp add: fetch_answers_def not_found_404_def)
  have 2: "checkRoomExists local_backend (fetch_answers (Inr exists_body_200)) ''room-1'' =
     Inr (Val (JBool True))"
    using checkRoomExists_outcomes[where fetch = "fetch_answers (Inr exists_body_200)"
        and b = local_backend and rid = "''room-1''" and r = exists_body_200
        and d = "JObj [(''room_id'', JStr ''room-1''), (''exists'', JBool True)]",
        THEN conjunct2, THEN conjunct1] e
    by (simp add: fetch_answers_def exists_body_200_def ok_def jsval_truthy_def)
  show ?thesis using 1 2 by simp
qed

section \<open>Properties of leaving and of screen sharing\<close>

lemma reconnecting_c1_eval:
  "reconnecting_c1 =
     client_c1\<lparr>wsRef := Some \<lparr>readyState = CONNECTING, userId = None\<rparr>,
               isConnected := False, reconnectAttempts := 1, reconnectTimeoutRef := Some 1,
               timers := [], nextTimer := 2,
               effects := effects client_c1 @
                 [SetTimeout 1 2000, WsNew ''ws://localhost:8000/ws/room-1'']\<rparr>"
  by (simp add: reconnecting_c1_def timer_fires_def ws_onclose_def socket_becomes_def
      setTimeout_reconnect_def reconnect_delay_def maxReconnectAttempts_def connectWebSocket_def state_after_def constructor_rejects_def
      wsOpen_def log_effect_def ws_url_def Let_def client_c1_eval joined_client_eval)

lemma handleLeave_reconnecting:
  "handleLeave reconnecting_c1 =
     reconnecting_c1\<lparr>wsRef := None,
       effects := effects reconnecting_c1 @ [WsClose, ClearTimeout 1, OnLeave]\<rparr>"
  by (simp add: handleLeave_def close_all_peers_def stop_local_stream_def send_leave_def
      close_socket_def clear_reconnect_timer_def reconnecting_c1_eval client_c1_eval
      joined_client_eval wsOpen_def log_effect_def clearTimeout_def stop_tracks_def)

lemma handleLeave_c1:
  "handleLeave client_c1 =
     client_c1\<lparr>wsRef := None,
       effects := effects client_c1 @
         [Send \<lparr>mtype = Leave, room_id = Some ''room-1'', sender_id = None, user_id = None,
                data = NoData\<rparr>, WsClose, OnLeave]\<rparr>"
  by (simp add: handleLeave_def close_all_peers_def stop_local_stream_def send_leave_def
      close_socket_def clear_reconnect_timer_def client_c1_eval joined_client_eval
      wsOpen_def log_effect_def clearTimeout_def stop_tracks_def leave_message_def)

lemma ws_onclose_schedules:
  assumes "c \<noteq> 1008" "c \<noteq> 1000" "reconnectAttempts s < 5"
  shows "timers (ws_onclose c s) =
           timers s @ [(nextTimer s, reconnect_delay (Suc (reconnectAttempts s)))]"
    and "roomId (ws_onclose c s) = roomId s"
  using assms
  by (simp_all add: ws_onclose_def Let_def maxReconnectAttempts_def setTimeout_reconnect_def)

lemma timer_fires_connects:
  assumes "t \<in> fst ` set (timers s)" "roomId s \<noteq> []" "CHR ''#'' \<notin> set (roomId s)"
  shows "wsRef (timer_fires t s) = Some \<lparr>readyState = CONNECTING, userId = None\<rparr>"
  using assms
  by (simp add: timer_fires_def connectWebSocket_def state_after_def constructor_rejects_def
      ws_url_def Let_def log_effect_def)

lemma left_while_reconnecting:
  "wsRef (handleLeave reconnecting_c1) = None"
  "timers (handleLeave reconnecting_c1) = []"
  "nextTimer (handleLeave reconnecting_c1) = 2"
  "reconnectAttempts (handleLeave reconnecting_c1) = 1"
  "roomId (handleLeave reconnecting_c1) = ''room-1''"
  unfolding handleLeave_reconnecting
  by (simp_all add: reconnecting_c1_eval client_c1_eval joined_client_eval)

lemma left_while_connected:
  "wsRef (handleLeave client_c1) = None"
  "timers (handleLeave client_c1) = []"
  "nextTimer (handleLeave client_c1) = 1"
  "reconnectAttempts (handleLeave client_c1) = 0"
  "roomId (handleLeave client_c1) = ''room-1''"
  unfolding handleLeave_c1
  by (simp_all add: client_c1_eval joined_client_eval)

text \<open>
  C6 on the code: a reconnection after an explicit leave. The socket that
  \<open>handleLeave\<close> closes keeps its \<open>onclose\<close> handler, and its \<open>close\<close> event is
  delivered after \<open>handleLeave\<close> has returned and cleared the timer. Closing a socket
  that is still connecting gives the code 1006, and closing an open one with no
  argument gives 1005 when the server echoes the empty close frame: neither is 1000 nor
  1008, so the handler schedules a retry, and the retry opens a new socket.
\<close>

theorem reconnect_after_leave:
  "wsRef reconnecting_c1 = Some \<lparr>readyState = CONNECTING, userId = None\<rparr>
   \<and> wsRef (handleLeave reconnecting_c1) = None
   \<and> timers (handleLeave reconnecting_c1) = []
   \<and> timers (ws_onclose 1006 (handleLeave reconnecting_c1)) = [(2, 4000)]
   \<and> wsRef (timer_fires 2 (ws_onclose 1006 (handleLeave reconnecting_c1))) =
       Some \<lparr>readyState = CONNECTING, userId = None\<rparr>
   \<and> wsRef (handleLeave client_c1) = None
   \<and> timers (ws_onclose 1005 (handleLeave client_c1)) = [(1, 2000)]
   \<and> wsRef (timer_fires 1 (ws_onclose 1005 (handleLeave client_c1))) =
       Some \<lparr>readyState = CONNECTING, userId = None\<rparr>"
proof -
  have a: "wsRef reconnecting_c1 = Some \<lparr>readyState = CONNECTING, userId = None\<rparr>"
    by (simp add: reconnecting_c1_eval)
  have t1: "timers (ws_onclose 1006 (handleLeave reconnecting_c1)) = [(2, 4000)]"
    and r1: "roomId (ws_onclose 1006 (handleLeave reconnecting_c1)) = ''room-1''"
    using ws_onclose_schedules[of 1006 "handleLeave reconnecting_c1"]
    by (simp_all add: left_while_reconnecting reconnect_delay_def)
  have w1: "wsRef (timer_fires 2 (ws_onclose 1006 (handleLeave reconnecting_c1))) =
       Some \<lparr>readyState = CONNECTING, userId = None\<rparr>"
    by (rule timer_fires_connects) (simp_all add: t1 r1)
  have t2: "timers (ws_onclose 1005 (handleLeave client_c1)) = [(1, 2000)]"
    and r2: "roomId (ws_onclose 1005 (handleLeave client_c1)) = ''room-1''"
    using ws_onclose_schedules[of 1005 "handleLeave client_c1"]
    by (simp_all add: left_while_connected reconnect_delay_def)
  have w2: "wsRef (timer_fires 1 (ws_onclose 1005 (handleLeave client_c1))) =
       Some \<lparr>readyState = CONNECTING, userId = None\<rparr>"
    by (rule timer_fires_connects) (simp_all add: t2 r2)
  show ?thesis
    using a t1 w1 t2 w2 left_while_reconnecting(1,2) left_while_connected(1) by simp
qed

text \<open>
  What \<open>handleLeave\<close> itself leaves behind: an empty peer map with every connection
  closed, every track of the local stream stopped, no socket (the one it had closed),
  and the timer of \<open>reconnectTimeoutRef\<close> cleared.
\<close>

lemma handleLeave_teardown:
  "peers (handleLeave s) = []
   \<and> list_all (\<lambda>k. PcClose k \<in> set (effects (handleLeave s))) (map fst (peers s))
   \<and> (localStream s = Some ls \<longrightarrow>
        list_all (\<lambda>t. TrackStop t \<in> set (effects (handleLeave s))) ls)
   \<and> wsRef (handleLeave s) = None
   \<and> (wsRef s \<noteq> None \<longrightarrow> WsClose \<in> set (effects (handleLeave s)))
   \<and> (reconnectTimeoutRef s = Some t \<and> t \<noteq> 0 \<longrightarrow>
        t \<notin> fst ` set (timers (handleLeave s))
        \<and> ClearTimeout t \<in> set (effects (handleLeave s)))"
proof -
  obtain s1 s2 s3 s4 s5 where
    s1: "s1 = s\<lparr>effects := effects s @ map (\<lambda>(k, p). PcClose k) (peers s), peers := []\<rparr>" and
    s2: "s2 = (case localStream s1 of None \<Rightarrow> s1 | Some ls \<Rightarrow> stop_tracks ls s1)" and
    s3: "s3 = (if wsOpen s2 then log_effect (Send (leave_message s2)) s2 else s2)" and
    s4: "s4 = (case wsRef s3 of None \<Rightarrow> s3
               | Some w \<Rightarrow> (log_effect WsClose s3)\<lparr>wsRef := None\<rparr>)" and
    s5: "s5 = (case reconnectTimeoutRef s4 of None \<Rightarrow> s4
               | Some t \<Rightarrow> if t \<noteq> 0 then clearTimeout t s4 else s4)"
    by simp
  have h: "handleLeave s = log_effect OnLeave s5"
    by (simp only: handleLeave_def close_all_peers_def stop_local_stream_def send_leave_def
        close_socket_def clear_reconnect_timer_def s1 s2 s3 s4 s5)
  have e1: "set (effects s1) \<subseteq> set (effects s2)"
    by (auto simp add: s2 stop_tracks_def split: option.splits)
  have e2: "set (effects s2) \<subseteq> set (effects s3)"
    by (auto simp add: s3 log_effect_def)
  have e3: "set (effects s3) \<subseteq> set (effects s4)"
    by (auto simp add: s4 log_effect_def split: option.splits)
  have e4: "set (effects s4) \<subseteq> set (effects s5)"
    by (auto simp add: s5 clearTimeout_def split: option.splits)
  have e5: "set (effects s5) \<subseteq> set (effects (handleLeave s))"
    by (auto simp add: h log_effect_def)
  have p: "peers s1 = []" "peers s2 = peers s1" "peers s3 = peers s2" "peers s4 = peers s3"
    "peers s5 = peers s4" "peers (handleLeave s) = peers s5"
    by (simp_all add: s1 s2 s3 s4 s5 h stop_tracks_def log_effect_def clearTimeout_def
        split: option.splits)
  have w: "wsRef s4 = None" "wsRef s5 = wsRef s4" "wsRef (handleLeave s) = wsRef s5"
    by (simp_all add: s4 s5 h log_effect_def clearTimeout_def split: option.splits)
  have ws: "wsRef s3 = wsRef s" "reconnectTimeoutRef s4 = reconnectTimeoutRef s"
    "localStream s1 = localStream s"
    by (simp_all add: s1 s2 s3 s4 stop_tracks_def log_effect_def split: option.splits)
  have c: "list_all (\<lambda>k. PcClose k \<in> set (effects s1)) (map fst (peers s))"
    by (auto simp add: s1 list_all_iff)
  have t: "localStream s = Some ls \<longrightarrow> list_all (\<lambda>t. TrackStop t \<in> set (effects s2)) ls"
    by (auto simp add: s2 ws stop_tracks_def list_all_iff)
  have cl: "wsRef s \<noteq> None \<longrightarrow> WsClose \<in> set (effects s4)"
    using ws(1) by (auto simp add: s4 log_effect_def split: option.splits)
  have tm: "reconnectTimeoutRef s = Some t \<and> t \<noteq> 0 \<longrightarrow>
              t \<notin> fst ` set (timers s5) \<and> ClearTimeout t \<in> set (effects s5)"
    using ws(2) by (auto simp add: s5 clearTimeout_def)
  have tl: "timers (handleLeave s) = timers s5"
    by (simp add: h log_effect_def)
  have i1: "set (effects s1) \<subseteq> set (effects (handleLeave s))"
    and i2: "set (effects s2) \<subseteq> set (effects (handleLeave s))"
    and i4: "set (effects s4) \<subseteq> set (effects (handleLeave s))"
    using e1 e2 e3 e4 e5 by blast+
  have C: "list_all (\<lambda>k. PcClose k \<in> set (effects (handleLeave s))) (map fst (peers s))"
    using c i1 by (auto simp add: list_all_iff)
  have T: "localStream s = Some ls \<longrightarrow>
             list_all (\<lambda>t. TrackStop t \<in> set (effects (handleLeave s))) ls"
    using t i2 by (auto simp add: list_all_iff)
  have CL: "wsRef s \<noteq> None \<longrightarrow> WsClose \<in> set (effects (handleLeave s))"
    using cl i4 by blast
  have TM: "reconnectTimeoutRef s = Some t \<and> t \<noteq> 0 \<longrightarrow>
              t \<notin> fst ` set (timers (handleLeave s))
              \<and> ClearTimeout t \<in> set (effects (handleLeave s))"
    using tm e5 unfolding tl by blast
  have P: "peers (handleLeave s) = []" using p by simp
  have W: "wsRef (handleLeave s) = None" using w by simp
  show ?thesis
    using P C T W CL TM by blast
qed

lemma media_granted_init:
  "init True media_granted (initial_client ''room-1'' ''ann'') =
     (initial_client ''room-1'' ''ann'')
       \<lparr>localStream := Some [mic_track, camera_track], isLoading := False,
        wsRef := Some \<lparr>readyState = CONNECTING, userId = None\<rparr>,
        effects := [WsNew ''ws://localhost:8000/ws/room-1'']\<rparr>"
  by (simp add: init_def initializeLocalStream_def media_granted_def initial_client_def
      connectWebSocket_def state_after_def constructor_rejects_def wsOpen_def log_effect_def ws_url_def Let_def)

lemma c1_with_media_eval:
  "c1_with_media =
     (initial_client ''room-1'' ''ann'')
       \<lparr>localStream := Some [mic_track, camera_track], isLoading := False,
        wsRef := Some \<lparr>readyState = OPEN, userId = Some ''c1''\<rparr>,
        isConnected := True,
        effects := [WsNew ''ws://localhost:8000/ws/room-1'',
                    Send \<lparr>mtype = Join, room_id = Some ''room-1'', sender_id = None,
                          user_id = Some ''ann'', data = NoData\<rparr>]\<rparr>"
  unfolding c1_with_media_def media_granted_init
  by (simp add: handleSignalingMessage_def handle_connected_def from_server_def
      ws_onopen_def socket_becomes_def initial_client_def log_effect_def join_message_def
      js_or_def truthy_def myUserId_def Let_def)

lemma c1_in_call_eval:
  "c1_in_call =
     c1_with_media
       \<lparr>peers := [(Some ''c2'', \<lparr>senders = [Some mic_track, Some camera_track],
                                localDescription = Some (''answer'', ''v=0 answer''),
                                remoteDescription = Some (''offer'', ''v=0 remote''),
                                iceCandidates = []\<rparr>)],
        effects := effects c1_with_media @
                  [PcNew (Some ''c2''),
                   Send \<lparr>mtype = Answer, room_id = Some ''room-1'', sender_id = None,
                         user_id = None, data = SdpData ''v=0 answer'' ''answer''\<rparr>]\<rparr>"
proof -
  have nf: "\<not> from_self offer_from_c2 c1_with_media"
    by (simp add: from_self_def scenario_messages js_or_def truthy_def myUserId_def
        c1_with_media_eval)
  have "c1_in_call = handle_offer engine_ok offer_from_c2 c1_with_media"
    unfolding c1_in_call_def
    by (simp add: handle_not_from_self nf scenario_messages)
  then show ?thesis
    by (simp add: scenario_messages handle_offer_def Let_def has_peer_def engine_ok_def
        createPeerConnection_def log_effect_def new_pc_def update_pc_def
        sendSignalingMessage_def wsOpen_def answer_message_def sdp_message_def
        c1_with_media_eval initial_client_def)
qed

lemma track_kinds:
  "kind mic_track = Audio" "kind camera_track = Video" "kind screen_track = Video"
  "kind fresh_mic_track = Audio" "kind fresh_camera_track = Video"
  "camera_track \<noteq> screen_track" "mic_track \<noteq> screen_track"
  "fresh_camera_track \<noteq> screen_track" "fresh_camera_track \<noteq> camera_track"
  by (simp_all add: mic_track_def camera_track_def screen_track_def fresh_mic_track_def
      fresh_camera_track_def)

lemma c1_in_call_facts:
  "peers c1_in_call = [(Some ''c2'', \<lparr>senders = [Some mic_track, Some camera_track],
                                localDescription = Some (''answer'', ''v=0 answer''),
                                remoteDescription = Some (''offer'', ''v=0 remote''),
                                iceCandidates = []\<rparr>)]"
  "localStream c1_in_call = Some [mic_track, camera_track]"
  "isScreenSharing c1_in_call = False"
  unfolding c1_in_call_eval
  by (simp_all add: c1_with_media_eval initial_client_def)

lemma start_screen_share_granted:
  assumes "getDisplayMedia env = Inr [v]" "kind v = Video"
    "localStream s = Some [a, c]" "kind a = Audio" "kind c = Video" "a \<noteq> v"
  shows "start_screen_share env s =
           (replace_in_peers (Some v) s)
             \<lparr>showScreenShareWarning := True, localStream := Some [v, a],
              isScreenSharing := True, effects := effects s @ [TrackStop c]\<rparr>"
  using assms
  by (simp add: start_screen_share_def Let_def getVideoTracks_def getAudioTracks_def
      first_track_def replace_in_peers_def stop_tracks_def add_track_def)

lemma c1_sharing_facts:
  "peers c1_sharing = [(Some ''c2'', \<lparr>senders = [Some mic_track, Some screen_track],
                                localDescription = Some (''answer'', ''v=0 answer''),
                                remoteDescription = Some (''offer'', ''v=0 remote''),
                                iceCandidates = []\<rparr>)]"
  "localStream c1_sharing = Some [screen_track, mic_track]"
  "isScreenSharing c1_sharing = True"
proof -
  have "c1_sharing = start_screen_share media_granted c1_in_call"
    by (simp add: c1_sharing_def click_toggleScreenShare_def toggleScreenShare_def
        c1_in_call_facts)
  also have "\<dots> = (replace_in_peers (Some screen_track) c1_in_call)
             \<lparr>showScreenShareWarning := True, localStream := Some [screen_track, mic_track],
              isScreenSharing := True, effects := effects c1_in_call @ [TrackStop camera_track]\<rparr>"
    by (rule start_screen_share_granted)
       (simp_all add: media_granted_def track_kinds c1_in_call_facts)
  finally have e: "c1_sharing = (replace_in_peers (Some screen_track) c1_in_call)
             \<lparr>showScreenShareWarning := True, localStream := Some [screen_track, mic_track],
              isScreenSharing := True, effects := effects c1_in_call @ [TrackStop camera_track]\<rparr>" .
  show "peers c1_sharing = [(Some ''c2'', \<lparr>senders = [Some mic_track, Some screen_track],
                                localDescription = Some (''answer'', ''v=0 answer''),
                                remoteDescription = Some (''offer'', ''v=0 remote''),
                                iceCandidates = []\<rparr>)]"
    by (simp add: e replace_in_peers_def c1_in_call_facts track_kinds)
  show "localStream c1_sharing = Some [screen_track, mic_track]" by (simp add: e)
  show "isScreenSharing c1_sharing = True" by (simp add: e)
qed


lemma onended_ignores_camera:
  "videoTrack_onended (env\<lparr>getUserMedia := g\<rparr>) s = videoTrack_onended env s"
  by (simp add: videoTrack_onended_def toggleScreenShare_def start_screen_share_def)

lemma onended_refused:
  assumes "getDisplayMedia env = Inl e"
  shows "peers (videoTrack_onended env s) = peers s"
    and "localStream (videoTrack_onended env s) = localStream s"
    and "isScreenSharing (videoTrack_onended env s) = isScreenSharing s"
  using assms
  by (simp_all add: videoTrack_onended_def toggleScreenShare_def start_screen_share_def
      toggle_catch_def log_effect_def Let_def)

lemma click_while_sharing:
  assumes "isScreenSharing s" "getUserMedia env = Inr cs"
  shows "peers (click_toggleScreenShare env s) =
           peers (replace_in_peers (first_track (getVideoTracks cs)) s)"
    and "\<not> isScreenSharing (click_toggleScreenShare env s)"
    and "localStream (click_toggleScreenShare env s) = Some cs"
  using assms
  by (simp_all add: click_toggleScreenShare_def toggleScreenShare_def stop_screen_share_def
      Let_def replace_in_peers_def stop_tracks_def split: option.splits)

text \<open>
  C7 on the code: the end of the shared track does not bring the camera back. \<open>c1\<close>
  sends microphone and camera to \<open>c2\<close>, then shares its screen by a click: the video
  sender of the PeerLink carries the screen track. When that track ends, the
  \<open>onended\<close> handler runs the closure that started the share, whose
  \<open>isScreenSharing\<close> is \<open>false\<close>: it asks for a display stream again (refused here)
  and never for the camera, so the sender still carries the ended screen track and the
  component still counts as sharing. A click on the button in the same state does bring
  a camera track back, one acquired afresh.
\<close>

theorem ended_share_not_reverted:
  "map_option senders (peer_of c1_in_call (Some ''c2'')) =
     Some [Some mic_track, Some camera_track]
   \<and> map_option senders (peer_of c1_sharing (Some ''c2'')) =
     Some [Some mic_track, Some screen_track]
   \<and> isScreenSharing c1_sharing
   \<and> map_option senders (peer_of (videoTrack_onended media_later c1_sharing) (Some ''c2'')) =
     Some [Some mic_track, Some screen_track]
   \<and> isScreenSharing (videoTrack_onended media_later c1_sharing)
   \<and> localStream (videoTrack_onended media_later c1_sharing) =
     Some [screen_track, mic_track]
   \<and> map_option senders
        (peer_of (click_toggleScreenShare media_later c1_sharing) (Some ''c2'')) =
     Some [Some mic_track, Some fresh_camera_track]"
proof -
  have d: "getDisplayMedia media_later =
             Inl \<lparr>ename = ''InvalidStateError'', emessage = ''No user activation''\<rparr>"
    and u: "getUserMedia media_later = Inr [fresh_mic_track, fresh_camera_track]"
    by (simp_all add: media_later_def)
  have 1: "map_option senders (peer_of c1_in_call (Some ''c2'')) =
     Some [Some mic_track, Some camera_track]"
    by (simp add: peer_of_def c1_in_call_facts)
  have 2: "map_option senders (peer_of c1_sharing (Some ''c2'')) =
     Some [Some mic_track, Some screen_track]"
    by (simp add: peer_of_def c1_sharing_facts)
  have 3: "map_option senders (peer_of (videoTrack_onended media_later c1_sharing) (Some ''c2'')) =
     Some [Some mic_track, Some screen_track]"
    by (simp add: peer_of_def onended_refused(1)[OF d] c1_sharing_facts)
  have 4: "isScreenSharing (videoTrack_onended media_later c1_sharing)"
    "localStream (videoTrack_onended media_later c1_sharing) = Some [screen_track, mic_track]"
    by (simp_all add: onended_refused[OF d] c1_sharing_facts)
  have s: "isScreenSharing c1_sharing" by (simp add: c1_sharing_facts)
  have 5: "map_option senders
        (peer_of (click_toggleScreenShare media_later c1_sharing) (Some ''c2'')) =
     Some [Some mic_track, Some fresh_camera_track]"
    by (simp add: peer_of_def click_while_sharing(1)[OF s u] replace_in_peers_def
        c1_sharing_facts getVideoTracks_def first_track_def track_kinds)
  show ?thesis using 1 2 3 4 5 s by simp
qed

text \<open>
  What holds of every run of \<open>toggleScreenShare\<close>: no message is sent, and the
  descriptions, the candidates and the audio tracks of every PeerLink stay as they were.
\<close>

lemma sends_no_message:
  "sends [Alert] = []" "sends (map TrackStop ts) = []" "sends [TrackStop t] = []"
  by (induction ts) (simp_all add: sends_def)

lemma toggle_catch_sends: "sends (effects (toggle_catch e s)) = sends (effects s)"
  by (simp add: toggle_catch_def log_effect_def Let_def sends_no_message)

lemma toggleScreenShare_sends_nothing:
  "sent (toggleScreenShare b env s) = sent s"
  by (simp add: toggleScreenShare_def start_screen_share_def stop_screen_share_def Let_def
      toggle_catch_sends sends_no_message sent_def stop_tracks_def replace_in_peers_def
      split: sum.splits option.splits)

lemma toggle_catch_peers: "peers (toggle_catch e s) = peers s"
  by (simp add: toggle_catch_def log_effect_def Let_def)

lemma replace_in_peers_descriptions:
  "map (\<lambda>(k, p). (k, localDescription p, remoteDescription p, iceCandidates p))
       (peers (replace_in_peers vt s)) =
   map (\<lambda>(k, p). (k, localDescription p, remoteDescription p, iceCandidates p)) (peers s)"
  by (simp add: replace_in_peers_def case_prod_beta comp_def)

lemma signaling_view_cong: "peers a = peers b \<Longrightarrow> signaling_view a = signaling_view b"
  by (simp add: signaling_view_def)

lemma toggleScreenShare_keeps_signaling:
  "signaling_view (toggleScreenShare b env s) = signaling_view s"
proof -
  have r: "signaling_view (replace_in_peers vt x) = signaling_view x" for vt x
    by (simp add: signaling_view_def replace_in_peers_descriptions)
  have c: "signaling_view (toggle_catch e x) = signaling_view x" for e x
    by (rule signaling_view_cong) (rule toggle_catch_peers)
  have u: "signaling_view (x\<lparr>showScreenShareWarning := w\<rparr>) = signaling_view x"
    "signaling_view (x\<lparr>localStream := l\<rparr>) = signaling_view x"
    "signaling_view (x\<lparr>isScreenSharing := i\<rparr>) = signaling_view x"
    "signaling_view (stop_tracks ts x) = signaling_view x" for x w l i ts
    by (simp_all add: signaling_view_def stop_tracks_def)
  show ?thesis
    by (simp add: toggleScreenShare_def start_screen_share_def stop_screen_share_def Let_def
        r c u split: sum.splits option.splits)
qed

lemma audio_sent_replace_video:
  "(\<And>v. vt = Some v \<Longrightarrow> kind v = Video) \<Longrightarrow> audio_sent (replace_video vt xs) = audio_sent xs"
proof (induction xs)
  case Nil
  then show ?case by simp
next
  case (Cons x xs)
  show ?case
  proof (cases x)
    case None
    then show ?thesis using Cons by simp
  next
    case (Some t)
    show ?thesis
    proof (cases vt)
      case None
      then show ?thesis using Some Cons by (cases "kind t") simp_all
    next
      case (Some v)
      then have "kind v = Video" using Cons.prems by simp
      then show ?thesis using \<open>x = Some t\<close> Some Cons by (cases "kind t") simp_all
    qed
  qed
qed

lemma first_video_is_video: "first_track (getVideoTracks st) = Some v \<Longrightarrow> kind v = Video"
proof -
  assume a: "first_track (getVideoTracks st) = Some v"
  then have "v \<in> set (getVideoTracks st)"
    by (cases "getVideoTracks st") (simp_all add: first_track_def)
  then show ?thesis by (simp add: getVideoTracks_def)
qed

lemma audio_view_replace:
  "audio_view (replace_in_peers (first_track (getVideoTracks st)) x) = audio_view x"
  by (simp add: audio_view_def replace_in_peers_def case_prod_beta comp_def
      audio_sent_replace_video first_video_is_video)

lemma audio_view_cong: "peers a = peers b \<Longrightarrow> audio_view a = audio_view b"
  by (simp add: audio_view_def)

lemma start_screen_share_peers:
  "getDisplayMedia env = Inl e \<Longrightarrow> peers (start_screen_share env s) = peers s"
  "getDisplayMedia env = Inr st \<Longrightarrow>
     peers (start_screen_share env s) =
       peers (replace_in_peers (first_track (getVideoTracks st)) s)"
  by (simp_all add: start_screen_share_def Let_def toggle_catch_peers replace_in_peers_def
      stop_tracks_def split: option.splits)

lemma stop_screen_share_peers:
  "getUserMedia env = Inl e \<Longrightarrow> peers (stop_screen_share env s) = peers s"
  "getUserMedia env = Inr st \<Longrightarrow>
     peers (stop_screen_share env s) =
       peers (replace_in_peers (first_track (getVideoTracks st)) s)"
  by (simp_all add: stop_screen_share_def Let_def toggle_catch_peers replace_in_peers_def
      stop_tracks_def split: option.splits)

lemma toggleScreenShare_keeps_audio:
  "audio_view (toggleScreenShare b env s) = audio_view s"
proof -
  have "audio_view (start_screen_share env s) = audio_view s"
  proof (cases "getDisplayMedia env")
    case (Inl e)
    then show ?thesis by (intro audio_view_cong start_screen_share_peers(1))
  next
    case (Inr st)
    then show ?thesis
      using audio_view_cong[OF start_screen_share_peers(2)[OF Inr, of s]]
      by (simp add: audio_view_replace)
  qed
  moreover have "audio_view (stop_screen_share env s) = audio_view s"
  proof (cases "getUserMedia env")
    case (Inl e)
    then show ?thesis by (intro audio_view_cong stop_screen_share_peers(1))
  next
    case (Inr st)
    then show ?thesis
      using audio_view_cong[OF stop_screen_share_peers(2)[OF Inr, of s]]
      by (simp add: audio_view_replace)
  qed
  ultimately show ?thesis by (simp add: toggleScreenShare_def)
qed

text \<open>
  And the track does change on every PeerLink: after a granted \<open>getDisplayMedia\<close>
  (resp. \<open>getUserMedia\<close> in the other branch) the first video sender of each
  connection carries the first video track of the new stream.
\<close>

lemma toggleScreenShare_replaces_video:
  "getDisplayMedia env = Inr st \<Longrightarrow>
     map (\<lambda>(k, p). (k, senders p)) (peers (toggleScreenShare False env s)) =
     map (\<lambda>(k, p). (k, replace_video (first_track (getVideoTracks st)) (senders p))) (peers s)"
  "getUserMedia env = Inr st \<Longrightarrow>
     map (\<lambda>(k, p). (k, senders p)) (peers (toggleScreenShare True env s)) =
     map (\<lambda>(k, p). (k, replace_video (first_track (getVideoTracks st)) (senders p))) (peers s)"
  by (simp_all add: toggleScreenShare_def start_screen_share_peers(2)
      stop_screen_share_peers(2) replace_in_peers_def case_prod_beta)

text \<open>
  C5 as stated fails. After five counted attempts a close with code 1006, neither 1000
  nor 1008, schedules no retry and surfaces the fatal error. And the closure that the
  client itself initiates by leaving reaches the handler with code 1005 and is retried.
\<close>

theorem close_policy_exceptions:
  "reconnectAttempts (failed_attempts [1006, 1006, 1006, 1006, 1006] joined_client) = 5
   \<and> timers (ws_onclose 1006 (failed_attempts [1006, 1006, 1006, 1006, 1006] joined_client)) =
       timers (failed_attempts [1006, 1006, 1006, 1006, 1006] joined_client)
   \<and> error (ws_onclose 1006 (failed_attempts [1006, 1006, 1006, 1006, 1006] joined_client)) =
       Some FailedToConnect
   \<and> timers (handleLeave client_c1) = []
   \<and> timers (ws_onclose 1005 (handleLeave client_c1)) = [(1, 2000)]"
proof -
  let ?s5 = "failed_attempts [1006, 1006, 1006, 1006, 1006] joined_client"
  have a: "abnormal 1006" by (simp add: abnormal_def)
  have f: "\<not> reconnectAttempts ?s5 < 5" using five_failures by simp
  have g: "ws_onclose 1006 ?s5 = ?s5\<lparr>isConnected := False, error := Some FailedToConnect\<rparr>"
    by (rule ws_onclose_give_up[OF a f])
  have 1: "timers (ws_onclose 1006 ?s5) = timers ?s5"
    "error (ws_onclose 1006 ?s5) = Some FailedToConnect"
    unfolding g by simp_all
  have 2: "timers (ws_onclose 1005 (handleLeave client_c1)) = [(1, 2000)]"
    using ws_onclose_schedules(1)[of 1005 "handleLeave client_c1"]
    by (simp add: left_while_connected reconnect_delay_def)
  show ?thesis
    using five_failures 1 2 left_while_connected(2) by simp
qed

end
